theory Spec2Isabelle
  imports Complex_Main "HOL-Library.Sublist"
begin

section \<open>ShoreSquad: the application state, its renderers and its handlers\<close>

text \<open>
  A shallow embedding of \<^verbatim>\<open>src/js/app.js\<close>. The file holds two versions of the script one
  after the other; the embedding follows the second, current one (the module state
  \<^verbatim>\<open>appState\<close> with the counter \<^verbatim>\<open>nextCleanupParticipants\<close>, the NEA forecast fetch and
  \<^verbatim>\<open>loadWeatherFallback\<close>).

  Conventions of the embedding.
  \<^item> The module-level object \<^verbatim>\<open>appState\<close>, the parts of the page the code writes to and the
    Leaflet library's layer counter are the fields of one record \<open>world\<close>. Every function of
    the source is a function from a world to an outcome and the world it leaves behind;
    an exception keeps the writes made before it was thrown.
  \<^item> JavaScript strings are byte lists (UTF-8); the characters beyond ASCII that the
    source uses are the named constants \<open>glyph_...\<close> below. Template literals are kept
    with their line breaks and indentation.
  \<^item> The numbers the code computes with (\<^verbatim>\<open>participants\<close>, the counter, the clock reading
    of \<^verbatim>\<open>Date.now()\<close>, the figures of the forecast feed) are integers, far below \<open>2^53\<close>,
    where JavaScript's doubles are exact; they are of type \<open>int\<close>. Coordinates are only
    stored and passed on, never computed with; they are of type \<open>real\<close>.
  \<^item> The named containers of the page (\<^verbatim>\<open>eventsList\<close>, \<^verbatim>\<open>weatherInfo\<close>, ...) exist: the
    markup is not part of the script. The Leaflet global \<^verbatim>\<open>L\<close> may be missing and
    \<^verbatim>\<open>appState.map\<close> may be \<^verbatim>\<open>null\<close>: the script itself provides for both.
  \<^item> Output on the console is not modelled.
\<close>

subsection \<open>Exceptions and outcomes\<close>

datatype js_error = TypeError | ReferenceError | SyntaxError | Error string

datatype outcome = Returned | Threw js_error

subsection \<open>Strings\<close>

definition apostrophe :: string where "apostrophe = [CHR 0x27]"
definition glyph_wave :: string where "glyph_wave = [CHR 0xF0, CHR 0x9F, CHR 0x8C, CHR 0x8A]"
definition glyph_beach :: string where
  "glyph_beach = [CHR 0xF0, CHR 0x9F, CHR 0x8F, CHR 0x96, CHR 0xEF, CHR 0xB8, CHR 0x8F]"
definition glyph_calendar :: string where "glyph_calendar = [CHR 0xF0, CHR 0x9F, CHR 0x93, CHR 0x85]"
definition glyph_people :: string where "glyph_people = [CHR 0xF0, CHR 0x9F, CHR 0x91, CHR 0xA5]"
definition glyph_pin :: string where "glyph_pin = [CHR 0xF0, CHR 0x9F, CHR 0x93, CHR 0x8D]"
definition glyph_sparkles :: string where "glyph_sparkles = [CHR 0xE2, CHR 0x9C, CHR 0xA8]"
definition glyph_degree :: string where "glyph_degree = [CHR 0xC2, CHR 0xB0]"
definition glyph_check :: string where "glyph_check = [CHR 0xE2, CHR 0x9C, CHR 0x93]"
definition glyph_wind :: string where "glyph_wind = [CHR 0xF0, CHR 0x9F, CHR 0x92, CHR 0xA8]"
definition glyph_droplet :: string where "glyph_droplet = [CHR 0xF0, CHR 0x9F, CHR 0x92, CHR 0xA7]"
definition glyph_eye :: string where
  "glyph_eye = [CHR 0xF0, CHR 0x9F, CHR 0x91, CHR 0x81, CHR 0xEF, CHR 0xB8, CHR 0x8F]"
definition glyph_warning :: string where
  "glyph_warning = [CHR 0xE2, CHR 0x9A, CHR 0xA0, CHR 0xEF, CHR 0xB8, CHR 0x8F]"
definition glyph_clock :: string where "glyph_clock = [CHR 0xE2, CHR 0x8F, CHR 0xB0]"
definition glyph_sun :: string where
  "glyph_sun = [CHR 0xE2, CHR 0x98, CHR 0x80, CHR 0xEF, CHR 0xB8, CHR 0x8F]"
definition glyph_sun_cloud :: string where "glyph_sun_cloud = [CHR 0xE2, CHR 0x9B, CHR 0x85]"
definition glyph_cloud :: string where
  "glyph_cloud = [CHR 0xE2, CHR 0x98, CHR 0x81, CHR 0xEF, CHR 0xB8, CHR 0x8F]"
definition glyph_rain :: string where
  "glyph_rain = [CHR 0xF0, CHR 0x9F, CHR 0x8C, CHR 0xA7, CHR 0xEF, CHR 0xB8, CHR 0x8F]"

text \<open>
  An integer in a template literal: its decimal digits, with a minus sign when negative.
\<close>

definition digit :: "nat \<Rightarrow> char" where
  "digit d = ''0123456789'' ! d"

fun digits10 :: "nat \<Rightarrow> string" where
  "digits10 n =
     (if n < 10 then [digit n]
      else digits10 (n div 10) @ [digit (n mod 10)])"

declare digits10.simps [simp del]

definition toString_int :: "int \<Rightarrow> string" where
  "toString_int i = (if i < 0 then CHR ''-'' # digits10 (nat (- i)) else digits10 (nat i))"

text \<open>A property that may be missing, in a template literal: \<^verbatim>\<open>undefined\<close> prints its name.\<close>

definition toString_opt :: "string option \<Rightarrow> string" where
  "toString_opt v = (case v of None \<Rightarrow> ''undefined'' | Some s \<Rightarrow> s)"

text \<open>The result of \<^verbatim>\<open>prompt\<close>: \<^verbatim>\<open>null\<close> when cancelled; \<^verbatim>\<open>null\<close> and the empty string are falsy.\<close>

definition truthy :: "string option \<Rightarrow> bool" where
  "truthy v = (case v of None \<Rightarrow> False | Some s \<Rightarrow> s \<noteq> [])"

subsection \<open>The data model\<close>

text \<open>
  A cleanup event. The seeded events carry \<^verbatim>\<open>time\<close> and \<^verbatim>\<open>description\<close> and no
  \<^verbatim>\<open>creator\<close>; the events of \<^verbatim>\<open>createEventMarker\<close> carry \<^verbatim>\<open>creator\<close> and neither of the
  other two. The field \<^verbatim>\<open>id\<close> is \<open>eid\<close> here.
\<close>

record event =
  eid :: string
  name :: string
  lat :: real
  lng :: real
  date :: string
  time :: "string option"
  participants :: int
  description :: "string option"
  creator :: "string option"

record crew =
  crew_id :: int
  crew_name :: string
  avatar :: string
  cleanups :: int
  itemsCollected :: int

text \<open>
  Leaflet. A layer is an object; the library stamps each with a fresh number, and a map
  removes a layer by that identity. \<open>lastId\<close> of the world is the library's counter.
\<close>

datatype layer =
    TileLayer nat string
  | Marker nat real real string string

fun lid :: "layer \<Rightarrow> nat" where
  "lid (TileLayer i u) = i"
| "lid (Marker i la lo t p) = i"

text \<open>What a marker shows, apart from its identity: position, title, popup.\<close>

fun marker_content :: "layer \<Rightarrow> (real \<times> real \<times> string \<times> string) option" where
  "marker_content (TileLayer i u) = None"
| "marker_content (Marker i la lo t p) = Some (la, lo, t, p)"

record leaflet_map =
  center :: "real \<times> real"
  zoom :: nat
  layers :: "layer list"

definition removeLayer :: "layer \<Rightarrow> leaflet_map \<Rightarrow> leaflet_map" where
  "removeLayer l m = m\<lparr>layers := filter (\<lambda>x. lid x \<noteq> lid l) (layers m)\<rparr>"

text \<open>
  The world: \<open>leaflet\<close> says whether the global \<^verbatim>\<open>L\<close> is defined; the fields from \<open>map_st\<close>
  (the source's \<^verbatim>\<open>appState.map\<close>) to \<open>nextCleanupParticipants\<close> are \<^verbatim>\<open>appState\<close>; the
  others are the page: the \<^verbatim>\<open>innerHTML\<close> or \<^verbatim>\<open>textContent\<close> of the named elements, the
  messages shown by \<^verbatim>\<open>alert\<close>, the announcements made for screen readers, and whether
  the static map fallback has been put into the map container.
\<close>

record world =
  leaflet :: bool
  lastId :: nat
  map_st :: "leaflet_map option"
  userLocation :: "(real \<times> real) option"
  crews :: "crew list"
  events :: "event list"
  markers :: "layer list"
  userMarker :: "layer option"
  nextCleanupParticipants :: int
  eventsList :: string
  weatherInfo :: string
  forecastInfo :: string
  waterInfo :: string
  crewList :: string
  totalCrew :: string
  cleanupCount :: string
  itemsCollected_el :: string
  nextCleanupParticipants_el :: string
  alerts :: "string list"
  announcements :: "string list"
  mapFallback :: bool

text \<open>The store: what \<^verbatim>\<open>appState\<close> holds.\<close>

definition appState ::
  "world \<Rightarrow> leaflet_map option \<times> (real \<times> real) option \<times> crew list \<times> event list \<times>
     layer list \<times> layer option \<times> int" where
  "appState w =
     (map_st w, userLocation w, crews w, events w, markers w, userMarker w,
      nextCleanupParticipants w)"

text \<open>Sequencing: the next statement runs only when the one before returned.\<close>

definition and_then ::
  "outcome \<times> world \<Rightarrow> (world \<Rightarrow> outcome \<times> world) \<Rightarrow> outcome \<times> world" where
  "and_then r f = (case r of (Returned, w) \<Rightarrow> f w | (Threw e, w) \<Rightarrow> (Threw e, w))"

subsection \<open>Markers\<close>

definition popupContent :: "string \<Rightarrow> event \<Rightarrow> string" where
  "popupContent nm eventData = concat
     [''\<newline>'',
      ''        <div style=\"font-weight: 500;\">\<newline>'',
      ''            '', glyph_beach, '' '', nm, ''\<newline>'',
      ''        </div>\<newline>'',
      ''        <div style=\"margin-top: 8px; font-size: 0.9em;\">\<newline>'',
      ''            <p>'', glyph_calendar, '' '', date eventData, ''</p>\<newline>'',
      ''            <p>'', glyph_people, '' '', toString_int (participants eventData), '' people</p>\<newline>'',
      ''            <button onclick=\"joinEvent('', apostrophe, eid eventData, apostrophe, '')\" style=\"\<newline>'',
      ''                background-color: #0077BE;\<newline>'',
      ''                color: white;\<newline>'',
      ''                border: none;\<newline>'',
      ''                padding: 6px 12px;\<newline>'',
      ''                border-radius: 4px;\<newline>'',
      ''                cursor: pointer;\<newline>'',
      ''                margin-top: 8px;\<newline>'',
      ''            \">Join Event</button>\<newline>'',
      ''        </div>\<newline>'',
      ''    '']"

text \<open>
  \<^verbatim>\<open>addBeachMarker\<close>: \<^verbatim>\<open>L.marker(...).addTo(appState.map)\<close> needs the library (a
  ReferenceError without it) and a map (a TypeError on \<^verbatim>\<open>null\<close>); the marker, with its
  popup bound, is then a layer of the map and the last element of \<^verbatim>\<open>appState.markers\<close>.
\<close>

definition addBeachMarker ::
  "real \<Rightarrow> real \<Rightarrow> string \<Rightarrow> event \<Rightarrow> world \<Rightarrow> outcome \<times> world" where
  "addBeachMarker la lo nm eventData w =
     (if \<not> leaflet w then (Threw ReferenceError, w)
      else case map_st w of
        None \<Rightarrow> (Threw TypeError, w)
      | Some m \<Rightarrow>
          let marker = Marker (Suc (lastId w)) la lo nm (popupContent nm eventData)
          in (Returned,
              w\<lparr>lastId := Suc (lastId w),
                map_st := Some (m\<lparr>layers := layers m @ [marker]\<rparr>),
                markers := markers w @ [marker]\<rparr>))"

subsection \<open>Rendering the events\<close>

definition event_card :: "event \<Rightarrow> string" where
  "event_card event = concat
     [''\<newline>'',
      ''        <li class=\"event-card\" role=\"listitem\">\<newline>'',
      ''            <div class=\"event-date\">'', date event, ''</div>\<newline>'',
      ''            <h3 class=\"event-title\">'', name event, ''</h3>\<newline>'',
      ''            <p class=\"event-location\">'', glyph_pin, '' Beach Location</p>\<newline>'',
      ''            <p class=\"event-participants\">'', glyph_people, '' '', toString_int (participants event), '' people interested</p>\<newline>'',
      ''            <p style=\"color: #7f8c8d; font-size: 0.9rem; margin-top: 8px;\">\<newline>'',
      ''                '', glyph_clock, '' '', toString_opt (time event), ''\<newline>'',
      ''            </p>\<newline>'',
      ''            <p style=\"color: #2C3E50; margin: 8px 0;\">\<newline>'',
      ''                '', toString_opt (description event), ''\<newline>'',
      ''            </p>\<newline>'',
      ''            <button class=\"event-btn\" onclick=\"joinEvent('', apostrophe, eid event, apostrophe, '')\" aria-label=\"Join event\">\<newline>'',
      ''                '', glyph_sparkles, '' Join Event\<newline>'',
      ''            </button>\<newline>'',
      ''        </li>\<newline>'',
      ''    '']"

text \<open>\<^verbatim>\<open>appState.markers.forEach(marker => appState.map.removeLayer(marker))\<close>\<close>

fun removeMarkers :: "layer list \<Rightarrow> world \<Rightarrow> outcome \<times> world" where
  "removeMarkers [] w = (Returned, w)"
| "removeMarkers (marker # ms) w =
     (case map_st w of
        None \<Rightarrow> (Threw TypeError, w)
      | Some m \<Rightarrow> removeMarkers ms (w\<lparr>map_st := Some (removeLayer marker m)\<rparr>))"

text \<open>\<^verbatim>\<open>appState.events.forEach(event => { addBeachMarker(...) })\<close>\<close>

fun addEventMarkers :: "event list \<Rightarrow> world \<Rightarrow> outcome \<times> world" where
  "addEventMarkers [] w = (Returned, w)"
| "addEventMarkers (event # es) w =
     and_then (addBeachMarker (lat event) (lng event) (name event) event w)
       (addEventMarkers es)"

definition renderEvents :: "world \<Rightarrow> outcome \<times> world" where
  "renderEvents w =
     (let w1 = w\<lparr>eventsList := concat (map event_card (events w))\<rparr>
      in and_then (removeMarkers (markers w1) w1)
           (\<lambda>w2. addEventMarkers (events w2) (w2\<lparr>markers := []\<rparr>)))"

subsection \<open>Joining an event\<close>

text \<open>
  \<^verbatim>\<open>find\<close> returns the first element that satisfies the test, as a reference into the
  array: \<open>findIndex\<close> is its position, and the update is made there.
\<close>

fun findIndex :: "('a \<Rightarrow> bool) \<Rightarrow> 'a list \<Rightarrow> nat option" where
  "findIndex P [] = None"
| "findIndex P (x # xs) = (if P x then Some 0 else map_option Suc (findIndex P xs))"

definition joined_message :: "event \<Rightarrow> string" where
  "joined_message event = concat
     [glyph_sparkles, '' Great! You joined \"'', name event, ''\"!\<newline>'',
      glyph_people, '' Total participants: '', toString_int (participants event)]"

definition joinEvent :: "string \<Rightarrow> world \<Rightarrow> outcome \<times> world" where
  "joinEvent eventId w =
     (case findIndex (\<lambda>e. eid e = eventId) (events w) of
        None \<Rightarrow> (Returned, w)
      | Some i \<Rightarrow>
          let event = (events w ! i)\<lparr>participants := participants (events w ! i) + 1\<rparr>;
              w1 = w\<lparr>events := (events w)[i := event]\<rparr>
          in and_then (renderEvents w1)
               (\<lambda>w2. (Returned, w2\<lparr>alerts := alerts w2 @ [joined_message event]\<rparr>)))"

subsection \<open>Creating an event\<close>

definition created_message :: "string \<Rightarrow> string" where
  "created_message beachName = concat [glyph_sparkles, '' Event created: '', beachName]"

text \<open>
  \<^verbatim>\<open>createEventMarker\<close>. Its inputs are the answers to the two prompts (the second is asked
  only after a truthy first answer) and the reading of \<^verbatim>\<open>Date.now()\<close>.
\<close>

definition createEventMarker ::
  "string option \<Rightarrow> string option \<Rightarrow> int \<Rightarrow> world \<Rightarrow> outcome \<times> world" where
  "createEventMarker beachName eventDate now w =
     (if \<not> truthy beachName then (Returned, w)
      else if \<not> truthy eventDate then (Returned, w)
      else case map_st w of
        None \<Rightarrow> (Threw TypeError, w)
      | Some m \<Rightarrow>
          let mapCenter = center m;
              newEvent = \<lparr>eid = ''event-'' @ toString_int now,
                          name = the beachName,
                          lat = fst mapCenter,
                          lng = snd mapCenter,
                          date = the eventDate,
                          time = None,
                          participants = 1,
                          description = None,
                          creator = Some ''You''\<rparr>;
              w1 = w\<lparr>events := events w @ [newEvent]\<rparr>
          in and_then (addBeachMarker (lat newEvent) (lng newEvent) (name newEvent) newEvent w1)
               (\<lambda>w2. and_then (renderEvents w2)
                  (\<lambda>w3. (Returned, w3\<lparr>alerts := alerts w3 @ [created_message (the beachName)]\<rparr>))))"

subsection \<open>The counter of the next cleanup\<close>

definition announceToScreenReader :: "string \<Rightarrow> world \<Rightarrow> outcome \<times> world" where
  "announceToScreenReader message w =
     (Returned, w\<lparr>announcements := announcements w @ [message]\<rparr>)"

definition joinNextCleanup :: "world \<Rightarrow> outcome \<times> world" where
  "joinNextCleanup w =
     (let w1 = w\<lparr>nextCleanupParticipants := nextCleanupParticipants w + 1\<rparr>;
          w2 = w1\<lparr>nextCleanupParticipants_el := toString_int (nextCleanupParticipants w1)\<rparr>;
          w3 = w2\<lparr>alerts := alerts w2 @
                 [concat [glyph_sparkles, '' You'', apostrophe, ''re in! You'', apostrophe,
                          ''ve joined the Pasir Ris cleanup!\<newline>'',
                          glyph_people, '' Total participants: '',
                          toString_int (nextCleanupParticipants w2)]]\<rparr>
      in announceToScreenReader
           (''You have joined the Pasir Ris cleanup. Total participants: '' @
              toString_int (nextCleanupParticipants w3)) w3)"

subsection \<open>The map and the user's location\<close>

definition mapTileLayer :: string where
  "mapTileLayer = ''https://{s}.tile.openstreetmap.org/{z}/{x}/{y}.png''"

text \<open>
  \<^verbatim>\<open>initializeMap\<close>: a new map centred on \<^verbatim>\<open>config.defaultLocation\<close> at zoom 12, with the
  tile layer added; without the library the first mention of \<^verbatim>\<open>L\<close> throws and
  \<^verbatim>\<open>appState.map\<close> keeps its value.
\<close>

definition initializeMap :: "world \<Rightarrow> outcome \<times> world" where
  "initializeMap w =
     (if \<not> leaflet w then (Threw ReferenceError, w)
      else
        let m = \<lparr>center = (40.7128, - 74.0060), zoom = 12, layers = []\<rparr>;
            tile = TileLayer (Suc (lastId w)) mapTileLayer
        in (Returned,
            w\<lparr>lastId := Suc (lastId w), map_st := Some (m\<lparr>layers := layers m @ [tile]\<rparr>)\<rparr>))"

text \<open>
  The function \<^verbatim>\<open>userLocation\<close> (named \<open>userLocation_handler\<close> here, \<open>userLocation\<close> being the
  field of the state). Its input is what the browser's geolocation answers: no support,
  a position (the success callback runs), or an error (the error callback runs).
\<close>

datatype geolocation = Unsupported | Position real real | PositionError string

definition userLocation_handler :: "geolocation \<Rightarrow> world \<Rightarrow> outcome \<times> world" where
  "userLocation_handler g w =
     (case g of
        Unsupported \<Rightarrow>
          (Returned, w\<lparr>alerts := alerts w @ [''Geolocation is not supported by your browser.'']\<rparr>)
      | PositionError message \<Rightarrow>
          (Returned, w\<lparr>alerts := alerts w @ [''Unable to get location. Using default location.'']\<rparr>)
      | Position latitude longitude \<Rightarrow>
          let w1 = w\<lparr>userLocation := Some (latitude, longitude)\<rparr>
          in and_then
               (case userMarker w1 of
                  None \<Rightarrow> (Returned, w1)
                | Some old \<Rightarrow>
                    (case map_st w1 of
                       None \<Rightarrow> (Threw TypeError, w1)
                     | Some m \<Rightarrow> (Returned, w1\<lparr>map_st := Some (removeLayer old m)\<rparr>)))
               (\<lambda>w2.
                  if \<not> leaflet w2 then (Threw ReferenceError, w2)
                  else case map_st w2 of
                    None \<Rightarrow> (Threw TypeError, w2)
                  | Some m \<Rightarrow>
                      let marker = Marker (Suc (lastId w2)) latitude longitude ''Your Location''
                                     (glyph_pin @ '' You are here'')
                      in (Returned,
                          w2\<lparr>lastId := Suc (lastId w2),
                             userMarker := Some marker,
                             map_st := Some (m\<lparr>layers := layers m @ [marker],
                                               center := (latitude, longitude),
                                               zoom := 12\<rparr>)\<rparr>)))"

subsection \<open>The crew\<close>

definition loadMockData :: "world \<Rightarrow> outcome \<times> world" where
  "loadMockData w =
     (Returned,
      w\<lparr>crews :=
          [\<lparr>crew_id = 1, crew_name = ''Alex'',
            avatar = [CHR 0xF0, CHR 0x9F, CHR 0x91, CHR 0xA8, CHR 0xE2, CHR 0x80, CHR 0x8D,
                      CHR 0xF0, CHR 0x9F, CHR 0xA6, CHR 0xB1],
            cleanups = 12, itemsCollected = 450\<rparr>,
           \<lparr>crew_id = 2, crew_name = ''Jordan'',
            avatar = [CHR 0xF0, CHR 0x9F, CHR 0x91, CHR 0xA9, CHR 0xE2, CHR 0x80, CHR 0x8D,
                      CHR 0xF0, CHR 0x9F, CHR 0xA6, CHR 0xB0],
            cleanups = 8, itemsCollected = 320\<rparr>,
           \<lparr>crew_id = 3, crew_name = ''Morgan'',
            avatar = [CHR 0xF0, CHR 0x9F, CHR 0xA7, CHR 0x91, CHR 0xE2, CHR 0x80, CHR 0x8D,
                      CHR 0xF0, CHR 0x9F, CHR 0xA6, CHR 0xB3],
            cleanups = 15, itemsCollected = 620\<rparr>,
           \<lparr>crew_id = 4, crew_name = ''Casey'',
            avatar = [CHR 0xF0, CHR 0x9F, CHR 0x91, CHR 0xA9, CHR 0xE2, CHR 0x80, CHR 0x8D,
                      CHR 0xF0, CHR 0x9F, CHR 0xA6, CHR 0xB1],
            cleanups = 10, itemsCollected = 380\<rparr>,
           \<lparr>crew_id = 5, crew_name = ''Riley'',
            avatar = [CHR 0xF0, CHR 0x9F, CHR 0x91, CHR 0xA8, CHR 0xE2, CHR 0x80, CHR 0x8D,
                      CHR 0xF0, CHR 0x9F, CHR 0xA6, CHR 0xB2],
            cleanups = 7, itemsCollected = 290\<rparr>],
        events :=
          [\<lparr>eid = ''event-1'', name = ''Manhattan Beach Cleanup'',
            lat = 40.5731, lng = - 73.9712, date = ''2025-12-10'', time = Some ''10:00 AM'',
            participants = 24, description = Some ''Help us clean Manhattan Beach!'',
            creator = None\<rparr>,
           \<lparr>eid = ''event-2'', name = ''Coney Island Coastal Cleanup'',
            lat = 40.5731, lng = - 73.9808, date = ''2025-12-15'', time = Some ''2:00 PM'',
            participants = 18, description = Some ''Join our Coney Island cleanup drive'',
            creator = None\<rparr>,
           \<lparr>eid = ''event-3'', name = ''Rockaway Beach Restoration'',
            lat = 40.5755, lng = - 73.8185, date = ''2025-12-20'', time = Some ''9:00 AM'',
            participants = 31, description = Some ''Restore Rockaway Beach community event'',
            creator = None\<rparr>]\<rparr>)"

definition crew_card :: "crew \<Rightarrow> string" where
  "crew_card member = concat
     [''\<newline>'',
      ''        <li class=\"crew-member\" role=\"listitem\">\<newline>'',
      ''            <div class=\"crew-avatar\">'', avatar member, ''</div>\<newline>'',
      ''            <div class=\"crew-name\">'', crew_name member, ''</div>\<newline>'',
      ''            <div style=\"font-size: 0.8rem; color: #7f8c8d;\">\<newline>'',
      ''                '', toString_int (cleanups member), '' cleanups\<newline>'',
      ''            </div>\<newline>'',
      ''        </li>\<newline>'',
      ''    '']"

definition renderCrew :: "world \<Rightarrow> outcome \<times> world" where
  "renderCrew w =
     (Returned,
      w\<lparr>crewList := concat (map crew_card (crews w)),
        totalCrew := toString_int (int (length (crews w))),
        cleanupCount := toString_int (foldl (\<lambda>sum c. sum + cleanups c) 0 (crews w)),
        itemsCollected_el := toString_int (foldl (\<lambda>sum c. sum + itemsCollected c) 0 (crews w))\<rparr>)"

subsection \<open>The weather: the forecast feed\<close>

text \<open>
  The payload of the forecast endpoint, in the shape the code reads it. Every object on
  the path may be missing or \<^verbatim>\<open>null\<close> (\<open>None\<close>): reading a property of it is then a
  TypeError. The figures at the leaves are whole numbers, the texts are strings.
\<close>

record range =
  low :: int
  high :: int

record wind_info =
  direction :: string
  speed :: "range option"

record forecast_entry =
  f_date :: string
  f_forecast :: string
  temperature :: "range option"
  wind :: "wind_info option"
  relative_humidity :: "range option"

record item =
  forecasts :: "forecast_entry option list option"

record weather_data =
  items :: "item option list option"

text \<open>
  What \<^verbatim>\<open>fetch\<close> and \<^verbatim>\<open>response.json()\<close> deliver: the request is rejected (no network,
  blocked by the browser), or there is a response with a status and a body, which is
  not JSON, or is \<^verbatim>\<open>null\<close>, or is an object.
\<close>

datatype body = NotJson | Json "weather_data option"

datatype fetch_result = Rejected | Response nat body

definition ok :: "nat \<Rightarrow> bool" where
  "ok status = (200 \<le> status \<and> status \<le> 299)"

text \<open>
  Dates. The code reads of a \<^verbatim>\<open>Date\<close> its day of the week and its text in the locale
  \<^verbatim>\<open>en-SG\<close>, and moves it by whole days: a valid date is the number of its day in local
  time, counted from 1 January 1970, a Thursday. The browser supplies the current day,
  the parser of \<^verbatim>\<open>new Date(string)\<close> and the two locale formats; they are parameters.
\<close>

datatype js_date = InvalidDate | LocalDay int

record browser =
  today :: int
  parseDate :: "string \<Rightarrow> js_date"
  toLocaleDateString :: "js_date \<Rightarrow> string"
  toLocaleDateString_short :: "js_date \<Rightarrow> string"

definition getDay :: "js_date \<Rightarrow> nat option" where
  "getDay d = (case d of InvalidDate \<Rightarrow> None | LocalDay n \<Rightarrow> Some (nat ((n + 4) mod 7)))"

definition days :: "string list" where
  "days = [''Sun'', ''Mon'', ''Tue'', ''Wed'', ''Thu'', ''Fri'', ''Sat'']"

text \<open>\<^verbatim>\<open>days[date.getDay()]\<close>: \<^verbatim>\<open>undefined\<close> for the \<^verbatim>\<open>NaN\<close> of an invalid date.\<close>

definition day_name :: "nat option \<Rightarrow> string" where
  "day_name k =
     (case k of
        None \<Rightarrow> ''undefined''
      | Some i \<Rightarrow> if i < length days then days ! i else ''undefined'')"

text \<open>\<^verbatim>\<open>Math.round\<close>: the nearest integer, a half rounded up.\<close>

definition Math_round :: "real \<Rightarrow> int" where
  "Math_round x = \<lfloor>x + 1 / 2\<rfloor>"

definition live_weather_html :: "int \<Rightarrow> forecast_entry \<Rightarrow> string" where
  "live_weather_html currentTemp currentForecast = concat
     [''\<newline>'',
      ''                <div style=\"display: grid; gap: 8px;\">\<newline>'',
      ''                    <p><strong>'', toString_int currentTemp, glyph_degree, ''C</strong> - Current Temperature</p>\<newline>'',
      ''                    <p>'', glyph_pin, '' Singapore</p>\<newline>'',
      ''                    <p style=\"font-size: 0.9rem; color: #2C3E50;\">\<newline>'',
      ''                        '', f_forecast currentForecast, ''\<newline>'',
      ''                    </p>\<newline>'',
      ''                    <p style=\"color: #2ecc71; font-weight: 500; margin-top: 8px;\">'', glyph_check, '' Live NEA Data'', ''</p>\<newline>'',
      ''                </div>\<newline>'',
      ''            '']"

text \<open>
  One element of \<^verbatim>\<open>forecasts.slice(0, 4).map(...)\<close>: a row of the forecast panel, or the
  TypeError of reading a property of a missing object.
\<close>

definition forecast_row :: "browser \<Rightarrow> forecast_entry option \<Rightarrow> js_error + string" where
  "forecast_row b entry =
     (case entry of
        None \<Rightarrow> Inl TypeError
      | Some f \<Rightarrow>
          let d = parseDate b (f_date f);
              dayName = day_name (getDay d);
              dateStr = toLocaleDateString_short b d
          in (case wind f of
               None \<Rightarrow> Inl TypeError
             | Some wd \<Rightarrow>
                 (case speed wd of
                    None \<Rightarrow> Inl TypeError
                  | Some sp \<Rightarrow>
                      (case temperature f of
                         None \<Rightarrow> Inl TypeError
                       | Some t \<Rightarrow>
                           (case relative_humidity f of
                              None \<Rightarrow> Inl TypeError
                            | Some rh \<Rightarrow> Inr (concat
     [''\<newline>'',
      ''                    <div style=\"padding: 12px; border-bottom: 1px solid #eee; display: grid; grid-template-columns: 1fr 1fr; gap: 12px;\">\<newline>'',
      ''                        <div>\<newline>'',
      ''                            <strong>'', dayName, ''</strong> '', dateStr, ''\<newline>'',
      ''                            <p style=\"font-size: 0.85rem; color: #2C3E50; margin-top: 4px;\">\<newline>'',
      ''                                '', f_forecast f, ''\<newline>'',
      ''                            </p>\<newline>'',
      ''                        </div>\<newline>'',
      ''                        <div style=\"text-align: right;\">\<newline>'',
      ''                            <div style=\"font-size: 0.85rem; color: #7f8c8d; margin-bottom: 4px;\">\<newline>'',
      ''                                '', glyph_wind, '' '', toString_int (low sp), ''-'', toString_int (high sp), '' km/h\<newline>'',
      ''                            </div>\<newline>'',
      ''                            <div style=\"font-weight: 600; color: #0077BE;\">\<newline>'',
      ''                                '', toString_int (high t), glyph_degree, ''C - '', toString_int (low t), glyph_degree, ''C\<newline>'',
      ''                            </div>\<newline>'',
      ''                            <div style=\"font-size: 0.8rem; color: #7f8c8d;\">\<newline>'',
      ''                                '', glyph_droplet, '' '', toString_int (low rh), ''-'', toString_int (high rh), ''%\<newline>'',
      ''                            </div>\<newline>'',
      ''                        </div>\<newline>'',
      ''                    </div>\<newline>'',
      ''                '']))))))"

text \<open>\<^verbatim>\<open>map\<close> with a callback that may throw: the first exception ends it.\<close>

fun map_rows :: "('a \<Rightarrow> js_error + string) \<Rightarrow> 'a list \<Rightarrow> js_error + string list" where
  "map_rows f [] = Inr []"
| "map_rows f (x # xs) =
     (case f x of
        Inl e \<Rightarrow> Inl e
      | Inr s \<Rightarrow> (case map_rows f xs of Inl e \<Rightarrow> Inl e | Inr rows \<Rightarrow> Inr (s # rows)))"

definition wave_height :: "range \<Rightarrow> string" where
  "wave_height sp = (if low sp > 10 then ''1.0-1.5m'' else ''0.5-1.0m'')"

definition live_water_html :: "int \<Rightarrow> wind_info \<Rightarrow> range \<Rightarrow> string" where
  "live_water_html avgTemp wd sp = concat
     [''\<newline>'',
      ''                <div style=\"display: grid; gap: 8px;\">\<newline>'',
      ''                    <p><strong>'', toString_int (avgTemp - 2), glyph_degree, ''C</strong> Water Temperature</p>\<newline>'',
      ''                    <p>'', glyph_wave, '' Wave Height: '', wave_height sp, ''</p>\<newline>'',
      ''                    <p>'', glyph_wind, '' Wind: '', direction wd, '' '', toString_int (low sp), ''-'', toString_int (high sp), '' km/h</p>\<newline>'',
      ''                    <p>'', glyph_eye, '' Visibility: Good</p>\<newline>'',
      ''                    <p style=\"color: #2ecc71; font-weight: 500; margin-top: 8px;\">'', glyph_check, '' Good for cleanup!</p>\<newline>'',
      ''                </div>\<newline>'',
      ''            '']"

text \<open>
  The \<^verbatim>\<open>try\<close> block of \<^verbatim>\<open>loadWeather\<close>, statement by statement. The three panels are
  written one after the other, so an exception may leave the first or the first two
  written.
\<close>

definition loadWeather_try :: "browser \<Rightarrow> fetch_result \<Rightarrow> world \<Rightarrow> outcome \<times> world" where
  "loadWeather_try b r w =
     (case r of
        Rejected \<Rightarrow> (Threw TypeError, w)
      | Response status bd \<Rightarrow>
          (if \<not> ok status
           then (Threw (Error (''API error: '' @ toString_int (int status))), w)
           else
             (case bd of
                NotJson \<Rightarrow> (Threw SyntaxError, w)
              | Json None \<Rightarrow> (Threw TypeError, w)
              | Json (Some data) \<Rightarrow>
                  (case items data of
                     None \<Rightarrow> (Threw (Error ''No forecast data available''), w)
                   | Some [] \<Rightarrow> (Threw (Error ''No forecast data available''), w)
                   | Some (None # rest) \<Rightarrow> (Threw TypeError, w)
                   | Some (Some it # rest) \<Rightarrow>
                       (let fs = (case forecasts it of None \<Rightarrow> [] | Some fs \<Rightarrow> fs)
                        in (case fs of
                              [] \<Rightarrow> (Threw TypeError, w)
                            | None # others \<Rightarrow> (Threw TypeError, w)
                            | Some currentForecast # others \<Rightarrow>
                                (case temperature currentForecast of
                                   None \<Rightarrow> (Threw TypeError, w)
                                 | Some t \<Rightarrow>
                                     (let currentTemp =
                                            Math_round (real_of_int (high t + low t) / 2);
                                          w1 = w\<lparr>weatherInfo :=
                                                 live_weather_html currentTemp currentForecast\<rparr>
                                      in (case map_rows (forecast_row b) (take 4 fs) of
                                            Inl e \<Rightarrow> (Threw e, w1)
                                          | Inr rows \<Rightarrow>
                                              (let forecastHtml = concat rows;
                                                   w2 = w1\<lparr>forecastInfo := forecastHtml\<rparr>;
                                                   avgTemp =
                                                     Math_round (real_of_int (high t + low t) / 2)
                                               in (case wind currentForecast of
                                                     None \<Rightarrow> (Threw TypeError, w2)
                                                   | Some wd \<Rightarrow>
                                                       (case speed wd of
                                                          None \<Rightarrow> (Threw TypeError, w2)
                                                        | Some sp \<Rightarrow>
                                                            (Returned,
                                                             w2\<lparr>waterInfo :=
                                                               live_water_html avgTemp wd sp\<rparr>)))))))))))))"

subsection \<open>The weather: the synthetic data\<close>

record demo_day =
  d_day :: string
  d_date :: string
  d_condition :: string
  d_high :: int
  d_low :: int

definition forecastConditions :: "string list" where
  "forecastConditions =
     [glyph_sun @ '' Sunny'', glyph_sun_cloud @ '' Partly Cloudy'',
      glyph_cloud @ '' Cloudy'', glyph_rain @ '' Rainy'']"

text \<open>The loop \<^verbatim>\<open>for (let i = 0; i < 4; i++)\<close> that fills \<^verbatim>\<open>forecast\<close>.\<close>

function fallback_loop :: "browser \<Rightarrow> nat \<Rightarrow> demo_day list \<Rightarrow> demo_day list" where
  "fallback_loop b i forecast =
     (if i < 4 then
        fallback_loop b (Suc i)
          (forecast @
             [\<lparr>d_day = day_name (getDay (LocalDay (today b + int i))),
               d_date = toLocaleDateString b (LocalDay (today b + int i)),
               d_condition = forecastConditions ! (i mod 4),
               d_high = 24 - int i,
               d_low = 18 + int i\<rparr>])
      else forecast)"
  by pat_completeness auto
termination
  by (relation "measure (\<lambda>(b, i, forecast). 4 - i)") auto

declare fallback_loop.simps [simp del]

definition demo_indicator :: string where
  "demo_indicator = glyph_warning @ '' Using demo data (API unavailable)''"

definition demo_weather_html :: "int \<Rightarrow> string" where
  "demo_weather_html currentTemp = concat
     [''\<newline>'',
      ''        <div style=\"display: grid; gap: 8px;\">\<newline>'',
      ''            <p><strong>'', toString_int currentTemp, glyph_degree, ''C</strong> - Current Temperature</p>\<newline>'',
      ''            <p>'', glyph_pin, '' Singapore</p>\<newline>'',
      ''            <p style=\"color: #7f8c8d; font-size: 0.9rem;\">'', demo_indicator, ''</p>\<newline>'',
      ''            <p style=\"color: #f39c12; font-weight: 500; margin-top: 8px;\">Typical conditions for Singapore</p>\<newline>'',
      ''        </div>\<newline>'',
      ''    '']"

definition demo_row :: "demo_day \<Rightarrow> string" where
  "demo_row day = concat
     [''\<newline>'',
      ''        <div style=\"padding: 12px; border-bottom: 1px solid #eee; display: flex; justify-content: space-between; align-items: center;\">\<newline>'',
      ''            <div>\<newline>'',
      ''                <strong>'', d_day day, ''</strong> '', d_date day, ''\<newline>'',
      ''            </div>\<newline>'',
      ''            <div style=\"text-align: right;\">\<newline>'',
      ''                <div style=\"font-size: 0.95rem; color: #2C3E50; margin-bottom: 4px;\">\<newline>'',
      ''                    '', d_condition day, ''\<newline>'',
      ''                </div>\<newline>'',
      ''                <div style=\"font-size: 0.85rem; color: #7f8c8d;\">\<newline>'',
      ''                    '', toString_int (d_high day), glyph_degree, ''C - '', toString_int (d_low day), glyph_degree, ''C\<newline>'',
      ''                </div>\<newline>'',
      ''            </div>\<newline>'',
      ''        </div>\<newline>'',
      ''    '']"

definition demo_water_temperature :: string where
  "demo_water_temperature = ''<strong>20'' @ glyph_degree @ ''C</strong> Water Temperature''"

definition demo_water_html :: string where
  "demo_water_html = concat
     [''\<newline>'',
      ''        <div style=\"display: grid; gap: 8px;\">\<newline>'',
      ''            <p>'', demo_water_temperature, ''</p>\<newline>'',
      ''            <p>'', glyph_wave, '' Wave Height: 0.5 - 1.0 m</p>\<newline>'',
      ''            <p>'', glyph_eye, '' Visibility: Good</p>\<newline>'',
      ''            <p>'', glyph_droplet, '' Current: Moderate</p>\<newline>'',
      ''            <p style=\"color: #2ecc71; font-weight: 500; margin-top: 8px;\">'', glyph_check, '' Good for cleanup!</p>\<newline>'',
      ''        </div>\<newline>'',
      ''    '']"

definition loadWeatherFallback :: "browser \<Rightarrow> world \<Rightarrow> outcome \<times> world" where
  "loadWeatherFallback b w =
     (let forecast = fallback_loop b 0 [];
          currentTemp = 22;
          w1 = w\<lparr>weatherInfo := demo_weather_html currentTemp\<rparr>;
          w2 = w1\<lparr>forecastInfo := concat (map demo_row forecast)\<rparr>
      in (Returned, w2\<lparr>waterInfo := demo_water_html\<rparr>))"

text \<open>\<^verbatim>\<open>loadWeather\<close>: the \<^verbatim>\<open>try\<close> block, and the \<^verbatim>\<open>catch\<close> clause for whatever it throws.\<close>

definition loadWeather :: "browser \<Rightarrow> fetch_result \<Rightarrow> world \<Rightarrow> outcome \<times> world" where
  "loadWeather b r w =
     (case loadWeather_try b r w of
        (Returned, w') \<Rightarrow> (Returned, w')
      | (Threw error, w') \<Rightarrow> loadWeatherFallback b w')"

subsection \<open>Page load and the remaining handlers\<close>

text \<open>
  The state the script starts from: the literal of \<^verbatim>\<open>appState\<close>, on a page whose containers
  are still empty. The parameter says whether the Leaflet script has been loaded.
\<close>

definition initial_world :: "bool \<Rightarrow> world" where
  "initial_world lf =
     \<lparr>leaflet = lf, lastId = 0,
      map_st = None, userLocation = None, crews = [], events = [], markers = [],
      userMarker = None, nextCleanupParticipants = 0,
      eventsList = [], weatherInfo = [], forecastInfo = [], waterInfo = [], crewList = [],
      totalCrew = [], cleanupCount = [], itemsCollected_el = [],
      nextCleanupParticipants_el = [], alerts = [], announcements = [], mapFallback = False\<rparr>"

text \<open>
  The handler of \<^verbatim>\<open>DOMContentLoaded\<close>. A failed \<^verbatim>\<open>initializeMap\<close> is caught and the static
  fallback is put into the map container. \<^verbatim>\<open>setupEventListeners\<close> only registers the
  handlers modelled here. \<^verbatim>\<open>loadWeather\<close> is started by this handler and writes its panels
  when the fetch has settled, whatever becomes of the handler: it is the step
  \<open>loadWeather\<close> of its own.
\<close>

definition onDOMContentLoaded :: "world \<Rightarrow> outcome \<times> world" where
  "onDOMContentLoaded w =
     (let w1 = (case initializeMap w of
                  (Returned, w') \<Rightarrow> w'
                | (Threw err, w') \<Rightarrow> w'\<lparr>mapFallback := True\<rparr>)
      in and_then (loadMockData w1) (\<lambda>w2. and_then (renderCrew w2) renderEvents))"

text \<open>The button of the fallback: \<^verbatim>\<open>try { mapEl.innerHTML = ''; initializeMap(); renderEvents(); } catch (e) { ... }\<close>\<close>

definition retryMap :: "world \<Rightarrow> outcome \<times> world" where
  "retryMap w =
     (case and_then (initializeMap (w\<lparr>mapFallback := False\<rparr>)) renderEvents of
        (res, w') \<Rightarrow> (Returned, w'))"

definition ctaClick :: "world \<Rightarrow> outcome \<times> world" where
  "ctaClick w =
     (Returned,
      w\<lparr>alerts := alerts w @
          [[CHR 0xF0, CHR 0x9F, CHR 0x8E, CHR 0x89] @
           '' Welcome to ShoreSquad! Explore the map, check weather, and join cleanup events.'']\<rparr>)"

text \<open>
  Every operation of the script that writes to the state or to the page, with its inputs.
  (The other functions of the script scroll the page, observe lazy elements, log the load
  time and register the service worker.)
\<close>

datatype action =
    InitializeMap
  | AddBeachMarker real real string event
  | UserLocation geolocation
  | CreateEventMarker "string option" "string option" int
  | LoadWeather browser fetch_result
  | LoadWeatherFallback browser
  | LoadMockData
  | RenderCrew
  | RenderEvents
  | JoinEvent string
  | JoinNextCleanup
  | AnnounceToScreenReader string
  | DOMContentLoaded
  | RetryMap
  | CtaClick

fun perform :: "action \<Rightarrow> world \<Rightarrow> outcome \<times> world" where
  "perform InitializeMap w = initializeMap w"
| "perform (AddBeachMarker la lo nm eventData) w = addBeachMarker la lo nm eventData w"
| "perform (UserLocation g) w = userLocation_handler g w"
| "perform (CreateEventMarker beachName eventDate now) w =
     createEventMarker beachName eventDate now w"
| "perform (LoadWeather b r) w = loadWeather b r w"
| "perform (LoadWeatherFallback b) w = loadWeatherFallback b w"
| "perform LoadMockData w = loadMockData w"
| "perform RenderCrew w = renderCrew w"
| "perform RenderEvents w = renderEvents w"
| "perform (JoinEvent eventId) w = joinEvent eventId w"
| "perform JoinNextCleanup w = joinNextCleanup w"
| "perform (AnnounceToScreenReader message) w = announceToScreenReader message w"
| "perform DOMContentLoaded w = onDOMContentLoaded w"
| "perform RetryMap w = retryMap w"
| "perform CtaClick w = ctaClick w"

subsection \<open>Notions used to state the results\<close>

text \<open>The markers of a list of events, stamped with the numbers after \<open>n\<close>.\<close>

fun event_markers :: "nat \<Rightarrow> event list \<Rightarrow> layer list" where
  "event_markers n [] = []"
| "event_markers n (e # es) =
     Marker (Suc n) (lat e) (lng e) (name e) (popupContent (name e) e) # event_markers (Suc n) es"

text \<open>A map without the layers of a list.\<close>

definition strip_layers :: "layer list \<Rightarrow> leaflet_map \<Rightarrow> leaflet_map" where
  "strip_layers ms m = m\<lparr>layers := filter (\<lambda>x. lid x \<notin> lid ` set ms) (layers m)\<rparr>"

text \<open>Reading a decimal numeral back.\<close>

definition undigits :: "string \<Rightarrow> nat" where
  "undigits s = foldl (\<lambda>a c. 10 * a + (of_char c - 48)) 0 s"

text \<open>The three weather panels.\<close>

definition panels :: "world \<Rightarrow> string \<times> string \<times> string" where
  "panels w = (weatherInfo w, forecastInfo w, waterInfo w)"

text \<open>The badge of the live panel.\<close>

definition live_indicator :: string where
  "live_indicator = glyph_check @ '' Live NEA Data''"

text \<open>
  The failures of the fetch: the request is rejected, the status is not a success, or the
  response has no \<^verbatim>\<open>items\<close> array with an element.
\<close>

fun lacks_items :: "body \<Rightarrow> bool" where
  "lacks_items NotJson = True"
| "lacks_items (Json None) = True"
| "lacks_items (Json (Some data)) = (case items data of None \<Rightarrow> True | Some xs \<Rightarrow> xs = [])"

fun fetch_failed :: "fetch_result \<Rightarrow> bool" where
  "fetch_failed Rejected = True"
| "fetch_failed (Response status bd) = (\<not> ok status \<or> lacks_items bd)"

text \<open>\<^verbatim>\<open>data.items[0].forecasts[0].wind.speed.low\<close>, where it exists.\<close>

definition first_low :: "fetch_result \<Rightarrow> int option" where
  "first_low r =
     (case r of
        Rejected \<Rightarrow> None
      | Response status bd \<Rightarrow>
          (case bd of
             NotJson \<Rightarrow> None
           | Json None \<Rightarrow> None
           | Json (Some data) \<Rightarrow>
               (case items data of
                  Some (Some it # rest) \<Rightarrow>
                    (case forecasts it of
                       Some (Some f # others) \<Rightarrow>
                         (case wind f of
                            None \<Rightarrow> None
                          | Some wd \<Rightarrow> map_option low (speed wd))
                     | _ \<Rightarrow> None)
                | _ \<Rightarrow> None)))"

subsection \<open>Worked inputs\<close>

text \<open>The page after loading, with the Leaflet script and without it.\<close>

definition ready_world :: world where
  "ready_world = snd (onDOMContentLoaded (initial_world True))"

definition mapless_world :: world where
  "mapless_world = snd (onDOMContentLoaded (initial_world False))"

text \<open>A browser whose dates are printed as day numbers, and a feed of one day.\<close>

definition sample_browser :: browser where
  "sample_browser =
     \<lparr>today = 20760,
      parseDate = (\<lambda>s. if s = ''2026-11-03'' then LocalDay 20760 else InvalidDate),
      toLocaleDateString = (\<lambda>d. case d of InvalidDate \<Rightarrow> ''Invalid Date''
                                   | LocalDay n \<Rightarrow> toString_int n),
      toLocaleDateString_short = (\<lambda>d. case d of InvalidDate \<Rightarrow> ''Invalid Date''
                                   | LocalDay n \<Rightarrow> toString_int n)\<rparr>"

definition sample_feed :: "int \<Rightarrow> fetch_result" where
  "sample_feed windLow =
     Response 200 (Json (Some
       \<lparr>items = Some [Some
          \<lparr>forecasts = Some [Some
             \<lparr>f_date = ''2026-11-03'',
              f_forecast = ''Afternoon thundery showers'',
              temperature = Some \<lparr>low = 24, high = 33\<rparr>,
              wind = Some \<lparr>direction = ''NE'', speed = Some \<lparr>low = windLow, high = 20\<rparr>\<rparr>,
              relative_humidity = Some \<lparr>low = 60, high = 95\<rparr>\<rparr>]\<rparr>]\<rparr>))"

section \<open>Properties\<close>

subsection \<open>Auxiliary facts\<close>

lemma findIndex_None: "(findIndex P xs = None) = (\<forall>x \<in> set xs. \<not> P x)"
  by (induction xs) auto

lemma findIndex_Some:
  "findIndex P xs = Some i \<Longrightarrow> i < length xs \<and> P (xs ! i) \<and> (\<forall>j<i. \<not> P (xs ! j))"
proof (induction xs arbitrary: i)
  case Nil
  then show ?case by simp
next
  case (Cons x xs)
  show ?case
  proof (cases "P x")
    case True
    with Cons.prems show ?thesis by simp
  next
    case False
    with Cons.prems obtain k where k: "findIndex P xs = Some k" "i = Suc k"
      by auto
    from Cons.IH [OF k(1)] have ih: "k < length xs" "P (xs ! k)" "\<forall>j<k. \<not> P (xs ! j)"
      by auto
    show ?thesis
    proof (intro conjI allI impI)
      show "i < length (x # xs)" using k ih by simp
      show "P ((x # xs) ! i)" using k ih by simp
      fix j assume "j < i"
      then show "\<not> P ((x # xs) ! j)" using k ih False by (cases j) auto
    qed
  qed
qed

lemma strip_layers_Nil: "strip_layers [] m = m"
  by (simp add: strip_layers_def)

lemma removeMarkers_closed:
  "removeMarkers ms w =
     (if ms = [] then (Returned, w)
      else case map_st w of
        None \<Rightarrow> (Threw TypeError, w)
      | Some m \<Rightarrow> (Returned, w\<lparr>map_st := Some (strip_layers ms m)\<rparr>))"
proof (induction ms arbitrary: w)
  case Nil
  then show ?case by simp
next
  case (Cons a ms)
  show ?case
  proof (cases "map_st w")
    case None
    then show ?thesis by simp
  next
    case (Some m)
    have conj_filter: "filter (\<lambda>x. lid x \<notin> lid ` set ms) (filter (\<lambda>x. lid x \<noteq> lid a) (layers m))
       = filter (\<lambda>x. lid x \<notin> lid ` set (a # ms)) (layers m)"
      by (induction "layers m") auto
    show ?thesis
      using Some Cons.IH [of "w\<lparr>map_st := Some (removeLayer a m)\<rparr>"]
      by (auto simp: strip_layers_def removeLayer_def conj_filter)
  qed
qed

lemma addEventMarkers_closed:
  "addEventMarkers es w =
     (if es = [] then (Returned, w)
      else if \<not> leaflet w then (Threw ReferenceError, w)
      else case map_st w of
        None \<Rightarrow> (Threw TypeError, w)
      | Some m \<Rightarrow>
          (Returned,
           w\<lparr>lastId := lastId w + length es,
             map_st := Some (m\<lparr>layers := layers m @ event_markers (lastId w) es\<rparr>),
             markers := markers w @ event_markers (lastId w) es\<rparr>))"
proof (induction es arbitrary: w)
  case Nil
  then show ?case by simp
next
  case (Cons e es)
  show ?case
  proof (cases "leaflet w")
    case False
    then show ?thesis by (simp add: addBeachMarker_def and_then_def)
  next
    case True
    show ?thesis
    proof (cases "map_st w")
      case None
      with True show ?thesis by (simp add: addBeachMarker_def and_then_def)
    next
      case (Some m)
      with True show ?thesis
        by (cases "es = []") (simp_all add: addBeachMarker_def and_then_def Cons.IH Let_def)
    qed
  qed
qed

lemma event_markers_Nil: "(event_markers n es = []) = (es = [])"
  by (cases es) auto

lemma length_event_markers: "length (event_markers n es) = length es"
  by (induction es arbitrary: n) auto

lemma content_event_markers:
  "map marker_content (event_markers n es) =
     map (\<lambda>e. Some (lat e, lng e, name e, popupContent (name e) e)) es"
  by (induction es arbitrary: n) auto

lemma renderEvents_closed:
  "renderEvents w =
     (if markers w \<noteq> [] \<and> map_st w = None
      then (Threw TypeError, w\<lparr>eventsList := concat (map event_card (events w))\<rparr>)
      else if events w = []
      then (Returned,
            w\<lparr>eventsList := concat (map event_card (events w)),
              map_st := map_option (strip_layers (markers w)) (map_st w),
              markers := []\<rparr>)
      else if \<not> leaflet w
      then (Threw ReferenceError,
            w\<lparr>eventsList := concat (map event_card (events w)),
              map_st := map_option (strip_layers (markers w)) (map_st w),
              markers := []\<rparr>)
      else case map_st w of
        None \<Rightarrow>
          (Threw TypeError,
           w\<lparr>eventsList := concat (map event_card (events w)), markers := []\<rparr>)
      | Some m \<Rightarrow>
          (Returned,
           w\<lparr>eventsList := concat (map event_card (events w)),
             lastId := lastId w + length (events w),
             map_st := Some (m\<lparr>layers := filter (\<lambda>x. lid x \<notin> lid ` set (markers w)) (layers m)
                                           @ event_markers (lastId w) (events w)\<rparr>),
             markers := event_markers (lastId w) (events w)\<rparr>))"
proof (cases "map_st w")
  case None
  then show ?thesis
    by (cases "markers w = []")
       (simp_all add: renderEvents_def Let_def removeMarkers_closed addEventMarkers_closed
          and_then_def)
next
  case (Some m)
  then show ?thesis
    by (cases "markers w = []")
       (simp_all add: renderEvents_def Let_def removeMarkers_closed addEventMarkers_closed
          and_then_def strip_layers_def)
qed

lemma renderEvents_frame:
  "events (snd (renderEvents w)) = events w"
  "crews (snd (renderEvents w)) = crews w"
  "userLocation (snd (renderEvents w)) = userLocation w"
  "userMarker (snd (renderEvents w)) = userMarker w"
  "nextCleanupParticipants (snd (renderEvents w)) = nextCleanupParticipants w"
  "leaflet (snd (renderEvents w)) = leaflet w"
  "(map_st (snd (renderEvents w)) = None) = (map_st w = None)"
  by (simp_all add: renderEvents_closed split: option.splits)

lemma and_then_frame:
  assumes "\<And>v. P (snd (f v)) = P v"
  shows "P (snd (and_then r f)) = P (snd r)"
  using assms by (cases r) (auto simp: and_then_def split: outcome.splits)

lemma joinEvent_events:
  "findIndex (\<lambda>e. eid e = eventId) (events w) = Some i \<Longrightarrow>
   events (snd (joinEvent eventId w)) =
     (events w)[i := (events w ! i)\<lparr>participants := participants (events w ! i) + 1\<rparr>]"
  by (cases "renderEvents (w\<lparr>events := (events w)[i := (events w ! i)\<lparr>participants := participants (events w ! i) + 1\<rparr>]\<rparr>)" rule: prod.exhaust [case_names p])
     (use renderEvents_frame(1) [of "w\<lparr>events := (events w)[i := (events w ! i)\<lparr>participants := participants (events w ! i) + 1\<rparr>]\<rparr>"]
      in \<open>auto simp: joinEvent_def Let_def and_then_def split: outcome.splits\<close>)

lemma onDOMContentLoaded_events:
  "events (snd (onDOMContentLoaded w)) = events (snd (loadMockData w))"
  by (cases "leaflet w")
     (simp_all add: onDOMContentLoaded_def initializeMap_def loadMockData_def renderCrew_def
        and_then_def renderEvents_frame Let_def)

lemma events_ready_world:
  "events ready_world = events (snd (loadMockData (initial_world True)))"
  by (simp add: ready_world_def onDOMContentLoaded_events loadMockData_def)

lemma events_mapless_world:
  "events mapless_world = events (snd (loadMockData (initial_world False)))"
  by (simp add: mapless_world_def onDOMContentLoaded_events loadMockData_def)

lemma ready_world_map: "leaflet ready_world \<and> map_st ready_world \<noteq> None"
  by (simp add: ready_world_def onDOMContentLoaded_def initializeMap_def loadMockData_def
        renderCrew_def and_then_def renderEvents_frame Let_def initial_world_def)

lemma below_ten:
  "d < 10 \<Longrightarrow> d = 0 \<or> d = 1 \<or> d = 2 \<or> d = 3 \<or> d = 4 \<or> d = 5 \<or> d = 6 \<or> d = 7 \<or> d = 8 \<or> d = (9::nat)"
  by arith

lemma of_char_digit: "d < 10 \<Longrightarrow> of_char (digit d) = 48 + d"
  by (drule below_ten) (auto simp: digit_def)

lemma digit_not_minus: "d < 10 \<Longrightarrow> digit d \<noteq> CHR ''-''"
  by (drule below_ten) (auto simp: digit_def)

lemma undigits_snoc: "undigits (s @ [c]) = 10 * undigits s + (of_char c - 48)"
  by (simp add: undigits_def)

lemma undigits_digits10: "undigits (digits10 n) = n"
proof (induction n rule: digits10.induct)
  case (1 n)
  show ?case
  proof (cases "n < 10")
    case True
    then show ?thesis
      by (subst digits10.simps) (simp add: undigits_def of_char_digit)
  next
    case False
    have "undigits (digits10 n) =
        10 * undigits (digits10 (n div 10)) + (of_char (digit (n mod 10)) - 48)"
      using False by (subst digits10.simps) (simp add: undigits_snoc)
    also have "\<dots> = 10 * (n div 10) + n mod 10"
      using False by (simp add: "1.IH" of_char_digit)
    finally show ?thesis by simp
  qed
qed

lemma digits10_no_minus: "CHR ''-'' \<notin> set (digits10 n)"
proof (induction n rule: digits10.induct)
  case (1 n)
  show ?case
  proof (cases "n < 10")
    case True
    then show ?thesis
      using digit_not_minus [of n] by (subst digits10.simps) auto
  next
    case False
    then show ?thesis
      using "1.IH" digit_not_minus [of "n mod 10"] by (subst digits10.simps) auto
  qed
qed

lemma digits10_not_Nil: "digits10 n \<noteq> []"
  by (subst digits10.simps) simp

lemma digits10_inj: "digits10 a = digits10 b \<Longrightarrow> a = b"
  by (metis undigits_digits10)

lemma toString_int_inj: "toString_int a = toString_int b \<Longrightarrow> a = b"
proof -
  assume eq: "toString_int a = toString_int b"
  have neg_pos: False if "x < 0" "\<not> y < 0" "toString_int x = toString_int y" for x y :: int
  proof -
    from that have "CHR ''-'' # digits10 (nat (- x)) = digits10 (nat y)"
      by (simp add: toString_int_def)
    then have "CHR ''-'' \<in> set (digits10 (nat y))"
      by (metis list.set_intros(1))
    then show False by (simp add: digits10_no_minus)
  qed
  show "a = b"
  proof (cases "a < 0")
    case True
    show ?thesis
    proof (cases "b < 0")
      case True
      with \<open>a < 0\<close> eq have "nat (- a) = nat (- b)"
        by (auto simp: toString_int_def dest: digits10_inj)
      with True \<open>a < 0\<close> show ?thesis by simp
    next
      case False
      with True eq neg_pos show ?thesis by blast
    qed
  next
    case False
    show ?thesis
    proof (cases "b < 0")
      case True
      with False eq neg_pos [of b a] show ?thesis by simp
    next
      case bpos: False
      with False eq have "nat a = nat b"
        by (auto simp: toString_int_def dest: digits10_inj)
      with bpos False show ?thesis by simp
    qed
  qed
qed

lemma createEventMarker_events:
  assumes "truthy beachName" and "truthy eventDate" and "map_st w = Some m"
  shows "events (snd (createEventMarker beachName eventDate now w)) =
           events w @
             [\<lparr>eid = ''event-'' @ toString_int now, name = the beachName,
               lat = fst (center m), lng = snd (center m), date = the eventDate,
               time = None, participants = 1, description = None, creator = Some ''You''\<rparr>]"
proof -
  define newEvent where "newEvent =
    \<lparr>eid = ''event-'' @ toString_int now, name = the beachName,
     lat = fst (center m), lng = snd (center m), date = the eventDate,
     time = None, participants = 1, description = None, creator = Some ''You''\<rparr>"
  define w1 where "w1 = w\<lparr>events := events w @ [newEvent]\<rparr>"
  define finish where "finish = (\<lambda>w2. and_then (renderEvents w2)
     (\<lambda>w3. (Returned, w3\<lparr>alerts := alerts w3 @ [created_message (the beachName)]\<rparr>)))"
  have call: "createEventMarker beachName eventDate now w =
      and_then (addBeachMarker (lat newEvent) (lng newEvent) (name newEvent) newEvent w1) finish"
    using assms by (simp add: createEventMarker_def Let_def newEvent_def w1_def finish_def)
  have "events (snd (finish v)) = events v" for v
    unfolding finish_def
    by (subst and_then_frame [where P = events]) (simp_all add: renderEvents_frame)
  then have "events (snd (createEventMarker beachName eventDate now w)) =
      events (snd (addBeachMarker (lat newEvent) (lng newEvent) (name newEvent) newEvent w1))"
    unfolding call by (rule and_then_frame [where P = events])
  also have "\<dots> = events w1"
    by (simp add: addBeachMarker_def Let_def split: option.splits)
  finally show ?thesis
    by (simp add: w1_def newEvent_def)
qed

lemma createEventMarker_map:
  assumes "map_st w = Some m"
  shows "map_st (snd (createEventMarker beachName eventDate now w)) \<noteq> None"
proof (cases "truthy beachName \<and> truthy eventDate")
  case False
  then show ?thesis using assms by (auto simp: createEventMarker_def)
next
  case True
  define newEvent where "newEvent =
    \<lparr>eid = ''event-'' @ toString_int now, name = the beachName,
     lat = fst (center m), lng = snd (center m), date = the eventDate,
     time = None, participants = 1, description = None, creator = Some ''You''\<rparr>"
  define w1 where "w1 = w\<lparr>events := events w @ [newEvent]\<rparr>"
  define finish where "finish = (\<lambda>w2. and_then (renderEvents w2)
     (\<lambda>w3. (Returned, w3\<lparr>alerts := alerts w3 @ [created_message (the beachName)]\<rparr>)))"
  have call: "createEventMarker beachName eventDate now w =
      and_then (addBeachMarker (lat newEvent) (lng newEvent) (name newEvent) newEvent w1) finish"
    using assms True by (simp add: createEventMarker_def Let_def newEvent_def w1_def finish_def)
  have "(map_st (snd (finish v)) = None) = (map_st v = None)" for v
    unfolding finish_def
    by (subst and_then_frame [where P = "\<lambda>w. map_st w = None"]) (simp_all add: renderEvents_frame)
  then have "(map_st (snd (createEventMarker beachName eventDate now w)) = None) =
      (map_st (snd (addBeachMarker (lat newEvent) (lng newEvent) (name newEvent) newEvent w1)) = None)"
    unfolding call by (rule and_then_frame [where P = "\<lambda>w. map_st w = None"])
  also have "\<dots> = (map_st w1 = None)"
    by (simp add: addBeachMarker_def Let_def split: option.splits)
  finally show ?thesis
    using assms by (simp add: w1_def)
qed

lemma toString_int_eval:
  "toString_int 1 = ''1''" "toString_int 2 = ''2''" "toString_int 3 = ''3''"
  "toString_int 1762176000000 = ''1762176000000''"
  by (simp_all add: toString_int_def digits10.simps digit_def)

lemma counter_addBeachMarker:
  "nextCleanupParticipants (snd (addBeachMarker la lo nm ev w)) = nextCleanupParticipants w"
  by (simp add: addBeachMarker_def Let_def split: option.splits)

lemma counter_initializeMap:
  "nextCleanupParticipants (snd (initializeMap w)) = nextCleanupParticipants w"
  by (simp add: initializeMap_def Let_def)

lemma counter_userLocation_handler:
  "nextCleanupParticipants (snd (userLocation_handler g w)) = nextCleanupParticipants w"
  by (simp add: userLocation_handler_def Let_def and_then_def
        split: geolocation.splits option.splits)

lemma counter_createEventMarker:
  "nextCleanupParticipants (snd (createEventMarker beachName eventDate now w)) =
     nextCleanupParticipants w"
proof (cases "truthy beachName \<and> truthy eventDate")
  case False
  then show ?thesis by (auto simp: createEventMarker_def)
next
  case True
  show ?thesis
  proof (cases "map_st w")
    case None
    with True show ?thesis by (simp add: createEventMarker_def)
  next
    case (Some m)
    have finish: "nextCleanupParticipants (snd (and_then (renderEvents v)
        (\<lambda>w3. (Returned, w3\<lparr>alerts := alerts w3 @ [created_message (the beachName)]\<rparr>)))) =
        nextCleanupParticipants v" for v
      by (subst and_then_frame [where P = nextCleanupParticipants])
         (simp_all add: renderEvents_frame)
    show ?thesis
      using True Some
      by (simp add: createEventMarker_def Let_def
            and_then_frame [where P = nextCleanupParticipants, OF finish]
            counter_addBeachMarker)
  qed
qed

lemma counter_loadWeatherFallback:
  "nextCleanupParticipants (snd (loadWeatherFallback b w)) = nextCleanupParticipants w"
  by (simp add: loadWeatherFallback_def Let_def)

lemma counter_loadWeather_try:
  "nextCleanupParticipants (snd (loadWeather_try b r w)) = nextCleanupParticipants w"
  by (simp add: loadWeather_try_def Let_def
        split: fetch_result.splits body.splits option.splits list.splits sum.splits)

lemma counter_loadWeather:
  "nextCleanupParticipants (snd (loadWeather b r w)) = nextCleanupParticipants w"
proof (cases "loadWeather_try b r w")
  case (Pair res w')
  with counter_loadWeather_try [of b r w] have "nextCleanupParticipants w' = nextCleanupParticipants w"
    by simp
  with Pair show ?thesis
    by (cases res) (simp_all add: loadWeather_def counter_loadWeatherFallback)
qed

lemma counter_joinEvent:
  "nextCleanupParticipants (snd (joinEvent eventId w)) = nextCleanupParticipants w"
proof (cases "findIndex (\<lambda>e. eid e = eventId) (events w)")
  case None
  then show ?thesis by (simp add: joinEvent_def)
next
  case (Some i)
  then show ?thesis
    by (simp add: joinEvent_def Let_def and_then_frame [where P = nextCleanupParticipants]
          renderEvents_frame)
qed

lemma counter_onDOMContentLoaded:
  "nextCleanupParticipants (snd (onDOMContentLoaded w)) = nextCleanupParticipants w"
proof -
  have inner: "nextCleanupParticipants (snd (and_then (renderCrew v) renderEvents)) =
      nextCleanupParticipants v" for v
    by (simp add: and_then_frame [where P = nextCleanupParticipants] renderEvents_frame
          renderCrew_def)
  show ?thesis
    by (cases "leaflet w")
       (simp_all add: onDOMContentLoaded_def Let_def initializeMap_def
          and_then_frame [where P = nextCleanupParticipants, OF inner] loadMockData_def)
qed

lemma counter_retryMap:
  "nextCleanupParticipants (snd (retryMap w)) = nextCleanupParticipants w"
proof -
  have "nextCleanupParticipants (snd (and_then (initializeMap (w\<lparr>mapFallback := False\<rparr>))
      renderEvents)) = nextCleanupParticipants w"
    by (simp add: and_then_frame [where P = nextCleanupParticipants] renderEvents_frame
          counter_initializeMap)
  then show ?thesis
    by (cases "and_then (initializeMap (w\<lparr>mapFallback := False\<rparr>)) renderEvents")
       (simp add: retryMap_def)
qed

lemma sublist_concat_mono: "sublist ys xs \<Longrightarrow> sublist (concat ys) (concat xs)"
proof -
  assume "sublist ys xs"
  then obtain ps ss where "xs = ps @ ys @ ss"
    by (auto simp: sublist_def)
  then have "concat xs = concat ps @ concat ys @ concat ss"
    by simp
  then show ?thesis
    by (metis sublist_appendI)
qed

lemma fallback_loop_value:
  "fallback_loop b 0 [] =
     [\<lparr>d_day = day_name (getDay (LocalDay (today b))),
       d_date = toLocaleDateString b (LocalDay (today b)),
       d_condition = glyph_sun @ '' Sunny'', d_high = 24, d_low = 18\<rparr>,
      \<lparr>d_day = day_name (getDay (LocalDay (today b + 1))),
       d_date = toLocaleDateString b (LocalDay (today b + 1)),
       d_condition = glyph_sun_cloud @ '' Partly Cloudy'', d_high = 23, d_low = 19\<rparr>,
      \<lparr>d_day = day_name (getDay (LocalDay (today b + 2))),
       d_date = toLocaleDateString b (LocalDay (today b + 2)),
       d_condition = glyph_cloud @ '' Cloudy'', d_high = 22, d_low = 20\<rparr>,
      \<lparr>d_day = day_name (getDay (LocalDay (today b + 3))),
       d_date = toLocaleDateString b (LocalDay (today b + 3)),
       d_condition = glyph_rain @ '' Rainy'', d_high = 21, d_low = 21\<rparr>]"
  by (simp add: fallback_loop.simps forecastConditions_def)

lemma demo_weather_has_indicator: "sublist demo_indicator (demo_weather_html t)"
proof -
  have "sublist (concat [demo_indicator]) (demo_weather_html t)"
    unfolding demo_weather_html_def by (rule sublist_concat_mono) (simp add: sublist_Cons_right)
  then show ?thesis by simp
qed

lemma demo_water_has_temperature: "sublist demo_water_temperature demo_water_html"
proof -
  have "sublist (concat [demo_water_temperature]) demo_water_html"
    unfolding demo_water_html_def by (rule sublist_concat_mono) (simp add: sublist_Cons_right)
  then show ?thesis by simp
qed

lemma live_weather_has_indicator: "sublist live_indicator (live_weather_html t f)"
proof -
  have "sublist (concat [glyph_check, '' Live NEA Data'']) (live_weather_html t f)"
    unfolding live_weather_html_def by (rule sublist_concat_mono) (simp add: sublist_Cons_right)
  then show ?thesis by (simp add: live_indicator_def)
qed

lemma live_water_has_wave_height:
  "sublist (glyph_wave @ '' Wave Height: '' @ wave_height sp @ ''</p>'') (live_water_html t wd sp)"
proof -
  have "sublist (concat [glyph_wave, '' Wave Height: '', wave_height sp, ''</p>\<newline>''])
      (live_water_html t wd sp)"
    unfolding live_water_html_def by (rule sublist_concat_mono) (simp add: sublist_Cons_right)
  moreover have "sublist (glyph_wave @ '' Wave Height: '' @ wave_height sp @ ''</p>'')
      (concat [glyph_wave, '' Wave Height: '', wave_height sp, ''</p>\<newline>''])"
    by (rule prefix_imp_sublist) simp
  ultimately show ?thesis
    by (rule sublist_order.order.trans [rotated])
qed

lemma demo_weather_no_live_badge: "\<not> sublist live_indicator (demo_weather_html 22)"
  by (simp add: demo_weather_html_def live_indicator_def demo_indicator_def toString_int_def
        digits10.simps digit_def glyph_check_def glyph_degree_def glyph_pin_def glyph_warning_def
        sublist_Cons_right)

lemma loadWeather_try_failed:
  "fetch_failed r \<Longrightarrow> \<exists>e. loadWeather_try b r w = (Threw e, w)"
proof (cases r)
  case Rejected
  then show ?thesis by (simp add: loadWeather_try_def)
next
  case (Response status bd)
  assume failed: "fetch_failed r"
  show ?thesis
  proof (cases "ok status")
    case False
    with Response show ?thesis by (simp add: loadWeather_try_def)
  next
    case True
    with failed Response have "lacks_items bd" by simp
    then show ?thesis
      using Response True
      by (cases bd rule: lacks_items.cases)
         (auto simp: loadWeather_try_def split: option.splits list.splits)
  qed
qed

lemma panels_loadWeatherFallback:
  "loadWeatherFallback b w =
     (Returned, w\<lparr>weatherInfo := demo_weather_html 22,
                  forecastInfo := concat (map demo_row (fallback_loop b 0 [])),
                  waterInfo := demo_water_html\<rparr>)"
  by (simp add: loadWeatherFallback_def Let_def)

lemma loadWeather_try_returned:
  assumes "loadWeather_try b r w = (Returned, w')"
  shows "\<exists>status data it rest f others t wd sp rows.
           r = Response status (Json (Some data)) \<and>
           items data = Some (Some it # rest) \<and>
           forecasts it = Some (Some f # others) \<and>
           temperature f = Some t \<and> wind f = Some wd \<and> speed wd = Some sp \<and>
           w' = w\<lparr>weatherInfo :=
                    live_weather_html (Math_round (real_of_int (high t + low t) / 2)) f,
                  forecastInfo := concat rows,
                  waterInfo :=
                    live_water_html (Math_round (real_of_int (high t + low t) / 2)) wd sp\<rparr>"
  using assms
  by (auto simp: loadWeather_try_def Let_def
        split: fetch_result.splits body.splits option.splits list.splits sum.splits if_splits)

lemma appState_loadWeather_try: "appState (snd (loadWeather_try b r w)) = appState w"
  by (simp add: loadWeather_try_def Let_def appState_def
        split: fetch_result.splits body.splits option.splits list.splits sum.splits)

lemma sample_feed_live:
  "fst (loadWeather_try sample_browser (sample_feed l) w) = Returned"
  by (simp add: loadWeather_try_def sample_feed_def ok_def forecast_row_def Let_def)

lemma first_low_sample_feed: "first_low (sample_feed l) = Some l"
  by (simp add: first_low_def sample_feed_def)

subsection \<open>Joining an event\<close>

text \<open>
  Claim C1. For an id that some event of the store carries, \<^verbatim>\<open>joinEvent\<close> raises the
  \<^verbatim>\<open>participants\<close> of the first event with that id by exactly 1, leaves its other fields as
  they are and changes no other event (this holds also when the re-rendering that follows
  throws for want of a map). For an id that no event carries, \<^verbatim>\<open>joinEvent\<close> returns and
  the whole world, the store included, is as before.
\<close>

theorem joinEvent_increments:
  "(eventId \<in> eid ` set (events w) \<longrightarrow>
      (\<exists>i<length (events w).
          eid (events w ! i) = eventId \<and>
          (\<forall>j<i. eid (events w ! j) \<noteq> eventId) \<and>
          length (events (snd (joinEvent eventId w))) = length (events w) \<and>
          events (snd (joinEvent eventId w)) ! i =
            (events w ! i)\<lparr>participants := participants (events w ! i) + 1\<rparr> \<and>
          participants (events (snd (joinEvent eventId w)) ! i) =
            participants (events w ! i) + 1 \<and>
          (\<forall>j<length (events w). j \<noteq> i \<longrightarrow>
             events (snd (joinEvent eventId w)) ! j = events w ! j)))
   \<and> (eventId \<notin> eid ` set (events w) \<longrightarrow> joinEvent eventId w = (Returned, w))"
proof (intro conjI impI)
  assume "eventId \<in> eid ` set (events w)"
  then have "findIndex (\<lambda>e. eid e = eventId) (events w) \<noteq> None"
    by (auto simp: findIndex_None)
  then obtain i where i: "findIndex (\<lambda>e. eid e = eventId) (events w) = Some i"
    by auto
  note found = findIndex_Some [OF i]
  note after = joinEvent_events [OF i]
  show "\<exists>i<length (events w).
          eid (events w ! i) = eventId \<and>
          (\<forall>j<i. eid (events w ! j) \<noteq> eventId) \<and>
          length (events (snd (joinEvent eventId w))) = length (events w) \<and>
          events (snd (joinEvent eventId w)) ! i =
            (events w ! i)\<lparr>participants := participants (events w ! i) + 1\<rparr> \<and>
          participants (events (snd (joinEvent eventId w)) ! i) =
            participants (events w ! i) + 1 \<and>
          (\<forall>j<length (events w). j \<noteq> i \<longrightarrow>
             events (snd (joinEvent eventId w)) ! j = events w ! j)"
    using found by (intro exI [of _ i]) (simp add: after)
next
  assume "eventId \<notin> eid ` set (events w)"
  then have "findIndex (\<lambda>e. eid e = eventId) (events w) = None"
    by (auto simp: findIndex_None)
  then show "joinEvent eventId w = (Returned, w)"
    by (simp add: joinEvent_def)
qed

text \<open>
  On the seeded store: joining \<^verbatim>\<open>event-2\<close> makes its count 19 and leaves 24 and 31; joining
  an unknown id changes nothing.
\<close>

theorem joinEvent_increments_witness:
  "participants (events (snd (joinEvent ''event-2'' ready_world)) ! 1) = 19 \<and>
   participants (events (snd (joinEvent ''event-2'' ready_world)) ! 0) = 24 \<and>
   participants (events (snd (joinEvent ''event-2'' ready_world)) ! 2) = 31 \<and>
   joinEvent ''event-7'' ready_world = (Returned, ready_world)"
proof -
  have ev: "events ready_world = events (snd (loadMockData (initial_world True)))"
    by (rule events_ready_world)
  have known: "''event-2'' \<in> eid ` set (events ready_world)"
    and unknown: "''event-7'' \<notin> eid ` set (events ready_world)"
    by (simp_all add: ev loadMockData_def)
  from joinEvent_increments [of "''event-2''" ready_world] known
  obtain i where i: "i < length (events ready_world)"
      "eid (events ready_world ! i) = ''event-2''"
      "participants (events (snd (joinEvent ''event-2'' ready_world)) ! i) =
         participants (events ready_world ! i) + 1"
      "\<forall>j<length (events ready_world). j \<noteq> i \<longrightarrow>
         events (snd (joinEvent ''event-2'' ready_world)) ! j = events ready_world ! j"
    by blast
  from i(1) have "i = 0 \<or> i = 1 \<or> i = 2"
    by (auto simp: ev loadMockData_def)
  with i(2) have i1: "i = 1"
    by (auto simp: ev loadMockData_def)
  have "participants (events (snd (joinEvent ''event-2'' ready_world)) ! 1) = 19"
    using i(3) by (simp add: i1 ev loadMockData_def)
  moreover have "events (snd (joinEvent ''event-2'' ready_world)) ! 0 = events ready_world ! 0"
    "events (snd (joinEvent ''event-2'' ready_world)) ! 2 = events ready_world ! 2"
    using i(4) by (simp_all add: i1 ev loadMockData_def)
  moreover have "joinEvent ''event-7'' ready_world = (Returned, ready_world)"
    using joinEvent_increments [of "''event-7''" ready_world] unknown by blast
  ultimately show ?thesis
    by (simp add: ev loadMockData_def)
qed

subsection \<open>Creating an event\<close>

text \<open>
  Claim C7. When the answer to the name prompt or to the date prompt is empty or the prompt
  is cancelled, \<^verbatim>\<open>createEventMarker\<close> returns and the world is as before: no event is
  added, no marker is made.
\<close>

theorem createEventMarker_aborts:
  "\<not> truthy beachName \<or> \<not> truthy eventDate \<Longrightarrow>
     createEventMarker beachName eventDate now w = (Returned, w)"
  by (auto simp: createEventMarker_def)

text \<open>An empty name, two cancelled prompts, and a cancelled date prompt.\<close>

theorem createEventMarker_aborts_witness:
  "createEventMarker (Some []) (Some ''2025-01-01'') 1762176000000 ready_world =
     (Returned, ready_world) \<and>
   createEventMarker None None 1762176000000 ready_world = (Returned, ready_world) \<and>
   createEventMarker (Some ''East Coast Park'') None 1762176000000 ready_world =
     (Returned, ready_world)"
  using createEventMarker_aborts [of "Some []" "Some ''2025-01-01''" 1762176000000 ready_world]
        createEventMarker_aborts [of None None 1762176000000 ready_world]
        createEventMarker_aborts [of "Some ''East Coast Park''" None 1762176000000 ready_world]
  by (simp add: truthy_def)

text \<open>
  Claim C2, as amended. An accepted call of \<^verbatim>\<open>createEventMarker\<close> on an initialised map
  appends one event, with \<^verbatim>\<open>participants\<close> 1, whose id is \<^verbatim>\<open>event-\<close> followed by the decimal
  reading of the clock. That id differs from the id of every event of the store whenever
  each of those ids is \<^verbatim>\<open>event-\<close> followed by another number (the seeds carry 1, 2, 3; the
  created events carry the clock readings of their creation): creations at different
  readings get different ids.
\<close>

theorem createEventMarker_id:
  assumes "truthy beachName" and "truthy eventDate" and "map_st w = Some m"
    and "\<forall>e \<in> set (events w). \<exists>t. t \<noteq> now \<and> eid e = ''event-'' @ toString_int t"
  shows "\<exists>ev. events (snd (createEventMarker beachName eventDate now w)) = events w @ [ev] \<and>
           eid ev = ''event-'' @ toString_int now \<and>
           participants ev = 1 \<and>
           eid ev \<notin> eid ` set (events w)"
proof -
  have "''event-'' @ toString_int now \<notin> eid ` set (events w)"
  proof
    assume "''event-'' @ toString_int now \<in> eid ` set (events w)"
    then obtain e where e: "e \<in> set (events w)" "eid e = ''event-'' @ toString_int now"
      by auto
    with assms(4) obtain t where "t \<noteq> now" "eid e = ''event-'' @ toString_int t"
      by blast
    with e(2) show False
      by (auto dest: toString_int_inj)
  qed
  then show ?thesis
    by (simp add: createEventMarker_events [OF assms(1-3)])
qed

text \<open>On the seeded store, at the clock reading 1762176000000.\<close>

theorem createEventMarker_id_witness:
  "\<exists>ev. events (snd (createEventMarker (Some ''East Coast Park'') (Some ''2026-11-14'')
             1762176000000 ready_world)) = events ready_world @ [ev] \<and>
        eid ev = ''event-1762176000000'' \<and> participants ev = 1 \<and>
        eid ev \<notin> {''event-1'', ''event-2'', ''event-3''}"
proof -
  obtain m where m: "map_st ready_world = Some m"
    using ready_world_map by auto
  have ids: "\<forall>e \<in> set (events ready_world).
      \<exists>t. t \<noteq> 1762176000000 \<and> eid e = ''event-'' @ toString_int t"
  proof -
    have "\<exists>t::int. t \<noteq> 1762176000000 \<and> ''event-1'' = ''event-'' @ toString_int t"
      by (rule exI [of _ 1]) (simp add: toString_int_eval)
    moreover have "\<exists>t::int. t \<noteq> 1762176000000 \<and> ''event-2'' = ''event-'' @ toString_int t"
      by (rule exI [of _ 2]) (simp add: toString_int_eval)
    moreover have "\<exists>t::int. t \<noteq> 1762176000000 \<and> ''event-3'' = ''event-'' @ toString_int t"
      by (rule exI [of _ 3]) (simp add: toString_int_eval)
    ultimately show ?thesis
      by (simp add: events_ready_world loadMockData_def)
  qed
  have "truthy (Some ''East Coast Park'')" "truthy (Some ''2026-11-14'')"
    by (simp_all add: truthy_def)
  from createEventMarker_id [OF this m ids]
  show ?thesis
    by (simp add: toString_int_eval events_ready_world loadMockData_def)
qed

text \<open>
  Claim C2 as stated fails: nothing compares the new id with the ids of the store, so two
  creations at one clock reading give the second event the id of the first.
\<close>

theorem createEventMarker_same_clock:
  "eid (last (events (snd (createEventMarker (Some ''Changi Beach'') (Some ''2026-11-21'')
        1762176000000
        (snd (createEventMarker (Some ''East Coast Park'') (Some ''2026-11-14'')
           1762176000000 ready_world))))))
   \<in> eid ` set (events (snd (createEventMarker (Some ''East Coast Park'') (Some ''2026-11-14'')
           1762176000000 ready_world)))"
proof -
  obtain m where m: "map_st ready_world = Some m"
    using ready_world_map by auto
  have t: "truthy (Some ''East Coast Park'')" "truthy (Some ''2026-11-14'')"
    "truthy (Some ''Changi Beach'')" "truthy (Some ''2026-11-21'')"
    by (simp_all add: truthy_def)
  obtain m1 where m1: "map_st (snd (createEventMarker (Some ''East Coast Park'')
      (Some ''2026-11-14'') 1762176000000 ready_world)) = Some m1"
    using createEventMarker_map
      [OF m, of "Some ''East Coast Park''" "Some ''2026-11-14''" 1762176000000]
    by auto
  show ?thesis
    by (simp add: createEventMarker_events [OF t(3) t(4) m1]
          createEventMarker_events [OF t(1) t(2) m])
qed

subsection \<open>Rendering the events\<close>

text \<open>
  Claim C6. \<^verbatim>\<open>renderEvents\<close> leaves the events as they are, and calling it twice in a
  row, from any state, gives the same result both times: the same outcome, the same
  markup of the events list, and markers with the same position, title and popup in the
  same order (they are new objects each time).
\<close>

theorem renderEvents_twice:
  "events (snd (renderEvents w)) = events w \<and>
   fst (renderEvents (snd (renderEvents w))) = fst (renderEvents w) \<and>
   eventsList (snd (renderEvents (snd (renderEvents w)))) = eventsList (snd (renderEvents w)) \<and>
   map marker_content (markers (snd (renderEvents (snd (renderEvents w))))) =
     map marker_content (markers (snd (renderEvents w)))"
proof -
  obtain res w1 where r1: "renderEvents w = (res, w1)"
    by (cases "renderEvents w")
  have "fst (renderEvents w1) = res \<and> eventsList (snd (renderEvents w1)) = eventsList w1 \<and>
        map marker_content (markers (snd (renderEvents w1))) = map marker_content (markers w1)"
    using r1
    by (subst (asm) renderEvents_closed, subst (1 2 3) renderEvents_closed)
       (auto simp: content_event_markers event_markers_Nil split: if_splits option.splits)
  moreover have "events w1 = events w"
    using renderEvents_frame(1) [of w] by (simp add: r1)
  ultimately show ?thesis by (simp add: r1)
qed

text \<open>
  Claim C8, as amended. When the Leaflet library is loaded and the map exists,
  \<^verbatim>\<open>renderEvents\<close> returns, and then \<^verbatim>\<open>appState.markers\<close> holds exactly one marker for each
  event, in the order of the events, each with the position, name and popup of its
  event; the map has lost the layers that were in \<^verbatim>\<open>appState.markers\<close> before and has
  gained the new markers.
\<close>

theorem renderEvents_markers:
  assumes "leaflet w" and "map_st w = Some m"
  shows "\<exists>w' m'. renderEvents w = (Returned, w') \<and> map_st w' = Some m' \<and>
           events w' = events w \<and>
           length (markers w') = length (events w) \<and>
           map marker_content (markers w') =
             map (\<lambda>e. Some (lat e, lng e, name e, popupContent (name e) e)) (events w) \<and>
           layers m' = filter (\<lambda>x. lid x \<notin> lid ` set (markers w)) (layers m) @ markers w'"
  using assms
  by (cases "events w = []")
     (simp_all add: renderEvents_closed length_event_markers content_event_markers strip_layers_def)

text \<open>On the seeded store with a map, a re-render leaves exactly 3 markers.\<close>

theorem renderEvents_markers_witness:
  "fst (renderEvents ready_world) = Returned \<and>
   length (markers (snd (renderEvents ready_world))) = 3 \<and>
   length (events (snd (renderEvents ready_world))) = 3"
proof -
  from ready_world_map obtain m where m: "leaflet ready_world" "map_st ready_world = Some m"
    by auto
  from renderEvents_markers [OF m]
  obtain w' where w': "renderEvents ready_world = (Returned, w')"
      "events w' = events ready_world" "length (markers w') = length (events ready_world)"
    by blast
  then show ?thesis
    by (simp add: events_ready_world loadMockData_def)
qed

text \<open>
  Claim C8 as stated fails without a map: after a page load on which Leaflet is missing,
  \<^verbatim>\<open>renderEvents\<close> throws at the first marker, and the store has 3 events and no marker.
\<close>

theorem renderEvents_without_map:
  "fst (renderEvents mapless_world) = Threw ReferenceError \<and>
   length (events (snd (renderEvents mapless_world))) = 3 \<and>
   markers (snd (renderEvents mapless_world)) = []"
proof -
  have "\<not> leaflet mapless_world" "markers mapless_world = []"
    by (simp_all add: mapless_world_def onDOMContentLoaded_def initializeMap_def loadMockData_def
        renderCrew_def and_then_def renderEvents_closed Let_def initial_world_def)
  then show ?thesis
    by (simp add: renderEvents_closed events_mapless_world loadMockData_def)
qed

subsection \<open>The counter of the next cleanup\<close>

text \<open>
  Claim C9. The state carries the counter \<^verbatim>\<open>nextCleanupParticipants\<close>. It is 0 in the initial
  state; \<^verbatim>\<open>joinNextCleanup\<close> returns and raises it by exactly 1; every other operation of the
  script, whatever its inputs and its outcome, leaves it as it is.
\<close>

theorem nextCleanupParticipants_only_joinNextCleanup:
  "nextCleanupParticipants (initial_world lf) = 0 \<and>
   nextCleanupParticipants (snd (perform JoinNextCleanup w)) = nextCleanupParticipants w + 1 \<and>
   fst (perform JoinNextCleanup w) = Returned \<and>
   (a \<noteq> JoinNextCleanup \<longrightarrow>
      nextCleanupParticipants (snd (perform a w)) = nextCleanupParticipants w)"
proof (intro conjI impI)
  show "nextCleanupParticipants (initial_world lf) = 0"
    by (simp add: initial_world_def)
  show "nextCleanupParticipants (snd (perform JoinNextCleanup w)) = nextCleanupParticipants w + 1"
    by (simp add: joinNextCleanup_def announceToScreenReader_def Let_def)
  show "fst (perform JoinNextCleanup w) = Returned"
    by (simp add: joinNextCleanup_def announceToScreenReader_def Let_def)
  assume "a \<noteq> JoinNextCleanup"
  then show "nextCleanupParticipants (snd (perform a w)) = nextCleanupParticipants w"
    by (cases a)
       (simp_all add: counter_initializeMap counter_addBeachMarker counter_userLocation_handler
          counter_createEventMarker counter_loadWeather counter_loadWeatherFallback
          counter_joinEvent counter_onDOMContentLoaded counter_retryMap renderEvents_frame
          loadMockData_def renderCrew_def announceToScreenReader_def ctaClick_def)
qed

text \<open>Joining an event and loading the page keep the counter; two calls make it 2.\<close>

theorem nextCleanupParticipants_witness:
  "nextCleanupParticipants (snd (perform (JoinEvent ''event-2'') ready_world)) =
     nextCleanupParticipants ready_world \<and>
   nextCleanupParticipants (snd (perform DOMContentLoaded (initial_world True))) = 0 \<and>
   nextCleanupParticipants
     (snd (perform JoinNextCleanup (snd (perform JoinNextCleanup (initial_world True))))) = 2"
proof -
  have "JoinEvent ''event-2'' \<noteq> JoinNextCleanup" "DOMContentLoaded \<noteq> JoinNextCleanup"
    by simp_all
  with nextCleanupParticipants_only_joinNextCleanup [of True ready_world "JoinEvent ''event-2''"]
       nextCleanupParticipants_only_joinNextCleanup [of True "initial_world True" DOMContentLoaded]
       nextCleanupParticipants_only_joinNextCleanup
         [of True "snd (perform JoinNextCleanup (initial_world True))" JoinNextCleanup]
  show ?thesis
    by simp
qed

subsection \<open>The weather\<close>

text \<open>
  Claim C10. The synthetic forecast has exactly 4 entries; entry \<open>i\<close> (from 0 to 3) has the
  high \<open>24 - i\<close>, the low \<open>18 + i\<close> and the \<open>i\<close>-th of the four condition texts, whatever
  the date; the last entry has high and low both 21, so a high is not always above its
  low. These entries are what \<^verbatim>\<open>loadWeatherFallback\<close> writes into the forecast panel.
\<close>

theorem fallback_forecast_entries:
  "length (fallback_loop b 0 []) = 4 \<and>
   map (\<lambda>d. (d_high d, d_low d, d_condition d)) (fallback_loop b 0 []) =
     map (\<lambda>i. (24 - int i, 18 + int i, forecastConditions ! i)) [0, 1, 2, 3] \<and>
   d_high (fallback_loop b 0 [] ! 3) = 21 \<and>
   d_low (fallback_loop b 0 [] ! 3) = 21 \<and>
   forecastInfo (snd (loadWeatherFallback b w)) = concat (map demo_row (fallback_loop b 0 []))"
  by (simp add: fallback_loop_value forecastConditions_def loadWeatherFallback_def Let_def)

text \<open>In the sample browser.\<close>

theorem fallback_forecast_witness:
  "length (fallback_loop sample_browser 0 []) = 4 \<and>
   d_high (fallback_loop sample_browser 0 [] ! 3) = 21 \<and>
   d_low (fallback_loop sample_browser 0 [] ! 3) = 21"
  using fallback_forecast_entries [of sample_browser "initial_world True"]
  by simp

text \<open>
  Claim C3. When the fetch fails (the request is rejected, the status is not a success,
  or the response has no \<^verbatim>\<open>items\<close> array with an element), \<^verbatim>\<open>loadWeather\<close> does what
  \<^verbatim>\<open>loadWeatherFallback\<close> does: the three panels show the synthetic data, the conditions
  panel carries the notice of demo data and not the badge of live data, and the water
  panel shows the water temperature 20 degrees Celsius.
\<close>

theorem loadWeather_failure_shows_demo:
  assumes "fetch_failed r"
  shows "loadWeather b r w = loadWeatherFallback b w \<and>
         fst (loadWeather b r w) = Returned \<and>
         panels (snd (loadWeather b r w)) =
           (demo_weather_html 22, concat (map demo_row (fallback_loop b 0 [])), demo_water_html) \<and>
         sublist demo_indicator (weatherInfo (snd (loadWeather b r w))) \<and>
         \<not> sublist live_indicator (weatherInfo (snd (loadWeather b r w))) \<and>
         sublist demo_water_temperature (waterInfo (snd (loadWeather b r w)))"
proof -
  from loadWeather_try_failed [OF assms] obtain e where "loadWeather_try b r w = (Threw e, w)"
    by blast
  then have same: "loadWeather b r w = loadWeatherFallback b w"
    by (simp add: loadWeather_def)
  show ?thesis
    unfolding same
    by (simp add: panels_loadWeatherFallback panels_def demo_weather_has_indicator
          demo_weather_no_live_badge demo_water_has_temperature)
qed

text \<open>A rejected request, a status 503, an empty \<^verbatim>\<open>items\<close> array and a missing one.\<close>

theorem loadWeather_failure_witness:
  "loadWeather sample_browser Rejected (initial_world True) =
     loadWeatherFallback sample_browser (initial_world True) \<and>
   sublist demo_indicator
     (weatherInfo (snd (loadWeather sample_browser (Response 503 NotJson) (initial_world True)))) \<and>
   sublist demo_water_temperature
     (waterInfo (snd (loadWeather sample_browser
        (Response 200 (Json (Some \<lparr>items = Some []\<rparr>))) (initial_world True)))) \<and>
   sublist demo_water_temperature
     (waterInfo (snd (loadWeather sample_browser
        (Response 200 (Json (Some \<lparr>items = None\<rparr>))) (initial_world True))))"
proof -
  have "fetch_failed Rejected" "fetch_failed (Response 503 NotJson)"
    "fetch_failed (Response 200 (Json (Some \<lparr>items = Some []\<rparr>)))"
    "fetch_failed (Response 200 (Json (Some \<lparr>items = None\<rparr>)))"
    by (simp_all add: ok_def)
  then show ?thesis
    using loadWeather_failure_shows_demo [of Rejected sample_browser "initial_world True"]
      loadWeather_failure_shows_demo [of "Response 503 NotJson" sample_browser "initial_world True"]
      loadWeather_failure_shows_demo
        [of "Response 200 (Json (Some \<lparr>items = Some []\<rparr>))" sample_browser "initial_world True"]
      loadWeather_failure_shows_demo
        [of "Response 200 (Json (Some \<lparr>items = None\<rparr>))" sample_browser "initial_world True"]
    by blast
qed

text \<open>
  Claim C4. On the live path, that is whenever the \<^verbatim>\<open>try\<close> block of \<^verbatim>\<open>loadWeather\<close> runs to
  its end, the first forecast entry has a wind speed \<^verbatim>\<open>low\<close>, and the water panel shows the
  wave height \<^verbatim>\<open>1.0-1.5m\<close> when that value is above 10 and \<^verbatim>\<open>0.5-1.0m\<close> when it is 10 or
  less.
\<close>

theorem live_wave_height_bucket:
  assumes "fst (loadWeather_try b r w) = Returned"
  shows "\<exists>l. first_low r = Some l \<and>
           loadWeather b r w = loadWeather_try b r w \<and>
           sublist (glyph_wave @ '' Wave Height: '' @
                      (if l > 10 then ''1.0-1.5m'' else ''0.5-1.0m'') @ ''</p>'')
             (waterInfo (snd (loadWeather b r w)))"
proof -
  obtain w' where tried: "loadWeather_try b r w = (Returned, w')"
    using assms by (cases "loadWeather_try b r w") simp
  from loadWeather_try_returned [OF tried]
  obtain status data it rest f others t wd sp rows where live:
      "r = Response status (Json (Some data))"
      "items data = Some (Some it # rest)"
      "forecasts it = Some (Some f # others)"
      "temperature f = Some t" "wind f = Some wd" "speed wd = Some sp"
    and after: "w' = w\<lparr>weatherInfo :=
                    live_weather_html (Math_round (real_of_int (high t + low t) / 2)) f,
                  forecastInfo := concat rows,
                  waterInfo :=
                    live_water_html (Math_round (real_of_int (high t + low t) / 2)) wd sp\<rparr>"
    by blast
  have water: "waterInfo w' =
      live_water_html (Math_round (real_of_int (high t + low t) / 2)) wd sp"
    by (simp add: after)
  have "first_low r = Some (low sp)"
    using live by (simp add: first_low_def)
  moreover have "loadWeather b r w = loadWeather_try b r w"
    using tried by (simp add: loadWeather_def)
  moreover have "sublist (glyph_wave @ '' Wave Height: '' @
        (if low sp > 10 then ''1.0-1.5m'' else ''0.5-1.0m'') @ ''</p>'') (waterInfo w')"
    using live_water_has_wave_height [of sp "Math_round (real_of_int (high t + low t) / 2)" wd]
    by (simp add: water wave_height_def)
  ultimately show ?thesis
    by (simp add: tried)
qed

text \<open>With \<^verbatim>\<open>low\<close> 12 the higher bucket is shown, with 8 the lower.\<close>

theorem live_wave_height_witness:
  "sublist (glyph_wave @ '' Wave Height: 1.0-1.5m</p>'')
     (waterInfo (snd (loadWeather sample_browser (sample_feed 12) (initial_world True)))) \<and>
   sublist (glyph_wave @ '' Wave Height: 0.5-1.0m</p>'')
     (waterInfo (snd (loadWeather sample_browser (sample_feed 8) (initial_world True))))"
proof -
  have "sublist (glyph_wave @ '' Wave Height: 1.0-1.5m</p>'')
      (waterInfo (snd (loadWeather sample_browser (sample_feed 12) (initial_world True))))"
    using live_wave_height_bucket [OF sample_feed_live, of 12 "initial_world True"]
    by (auto simp: first_low_sample_feed)
  moreover have "sublist (glyph_wave @ '' Wave Height: 0.5-1.0m</p>'')
      (waterInfo (snd (loadWeather sample_browser (sample_feed 8) (initial_world True))))"
    using live_wave_height_bucket [OF sample_feed_live, of 8 "initial_world True"]
    by (auto simp: first_low_sample_feed)
  ultimately show ?thesis
    by simp
qed

text \<open>
  Claim C5. \<^verbatim>\<open>loadWeather\<close> returns for every answer of the fetch and never throws; the
  store is as before. Either the \<^verbatim>\<open>try\<close> block ran to its end and the live data are
  rendered, or it threw and all three panels show the synthetic data, also when a part of
  the live data had been written already.
\<close>

theorem loadWeather_never_throws:
  "fst (loadWeather b r w) = Returned \<and>
   appState (snd (loadWeather b r w)) = appState w \<and>
   (case loadWeather_try b r w of
      (Returned, w') \<Rightarrow>
        loadWeather b r w = (Returned, w') \<and> sublist live_indicator (weatherInfo w')
    | (Threw e, w') \<Rightarrow>
        loadWeather b r w = loadWeatherFallback b w' \<and>
        panels (snd (loadWeather b r w)) =
          (demo_weather_html 22, concat (map demo_row (fallback_loop b 0 [])), demo_water_html))"
proof (cases "loadWeather_try b r w")
  case (Pair res w')
  have store: "appState w' = appState w"
    using appState_loadWeather_try [of b r w] Pair by simp
  show ?thesis
  proof (cases res)
    case Returned
    with Pair have tried: "loadWeather_try b r w = (Returned, w')" by simp
    from loadWeather_try_returned [OF tried] obtain t :: int and f rows and wt :: int and wd sp where
      "w' = w\<lparr>weatherInfo := live_weather_html t f, forecastInfo := concat rows,
                waterInfo := live_water_html wt wd sp\<rparr>"
      by blast
    then have "weatherInfo w' = live_weather_html t f"
      by simp
    then show ?thesis
      using tried store by (simp add: loadWeather_def live_weather_has_indicator)
  next
    case (Threw e)
    with Pair show ?thesis
      using store
      by (simp add: loadWeather_def panels_loadWeatherFallback panels_def appState_def)
  qed
qed

text \<open>A rejected fetch, a well-formed feed, and a feed whose first entry is \<^verbatim>\<open>null\<close>.\<close>

theorem loadWeather_never_throws_witness:
  "fst (loadWeather sample_browser Rejected (initial_world True)) = Returned \<and>
   fst (loadWeather sample_browser (sample_feed 12) (initial_world True)) = Returned \<and>
   fst (loadWeather sample_browser
          (Response 200 (Json (Some \<lparr>items = Some [Some \<lparr>forecasts = Some [None]\<rparr>]\<rparr>)))
          (initial_world True)) = Returned"
  using loadWeather_never_throws [of sample_browser Rejected "initial_world True"]
    loadWeather_never_throws [of sample_browser "sample_feed 12" "initial_world True"]
    loadWeather_never_throws
      [of sample_browser
          "Response 200 (Json (Some \<lparr>items = Some [Some \<lparr>forecasts = Some [None]\<rparr>]\<rparr>))"
          "initial_world True"]
  by blast

end
